theory Spec2Isabelle
  imports Complex_Main "HOL-Library.Multiset"
begin

section \<open>JavaScript numbers\<close>

text \<open>
  The services compute with JavaScript numbers. A number is modelled as a real, or one
  of the three special values that the code can produce and that decide several branches
  (\<open>parseFloat\<close> of a non-numeric string and \<open>0 / 0\<close> give \<open>NaN\<close>, a division by
  zero gives an infinity). The arithmetic of prices, quotes and rates below is exact: a
  finite value is the exact real, without the rounding to 53 bits, the overflow to
  infinity or the sign of zero, so a printed last digit can differ from the program's
  where the exact value lies on a decimal tie. The scaling of an amount to smallest
  units, where the last bit decides the integer, rounds to the nearest double
  (\<open>to_double\<close> below).
\<close>

datatype jsnum = Fin real | NaN | PosInf | NegInf

fun js_mul :: "jsnum \<Rightarrow> jsnum \<Rightarrow> jsnum" where
  "js_mul (Fin x) (Fin y) = Fin (x * y)"
| "js_mul NaN _ = NaN"
| "js_mul _ NaN = NaN"
| "js_mul (Fin x) PosInf = (if x = 0 then NaN else if 0 < x then PosInf else NegInf)"
| "js_mul (Fin x) NegInf = (if x = 0 then NaN else if 0 < x then NegInf else PosInf)"
| "js_mul PosInf (Fin y) = (if y = 0 then NaN else if 0 < y then PosInf else NegInf)"
| "js_mul NegInf (Fin y) = (if y = 0 then NaN else if 0 < y then NegInf else PosInf)"
| "js_mul PosInf PosInf = PosInf"
| "js_mul PosInf NegInf = NegInf"
| "js_mul NegInf PosInf = NegInf"
| "js_mul NegInf NegInf = PosInf"

fun js_div :: "jsnum \<Rightarrow> jsnum \<Rightarrow> jsnum" where
  "js_div (Fin x) (Fin y) =
     (if y = 0 then (if x = 0 then NaN else if 0 < x then PosInf else NegInf)
      else Fin (x / y))"
| "js_div NaN _ = NaN"
| "js_div _ NaN = NaN"
| "js_div (Fin x) PosInf = Fin 0"
| "js_div (Fin x) NegInf = Fin 0"
| "js_div PosInf (Fin y) = (if 0 \<le> y then PosInf else NegInf)"
| "js_div NegInf (Fin y) = (if 0 \<le> y then NegInf else PosInf)"
| "js_div PosInf PosInf = NaN"
| "js_div PosInf NegInf = NaN"
| "js_div NegInf PosInf = NaN"
| "js_div NegInf NegInf = NaN"

fun js_sub :: "jsnum \<Rightarrow> jsnum \<Rightarrow> jsnum" where
  "js_sub (Fin x) (Fin y) = Fin (x - y)"
| "js_sub NaN _ = NaN"
| "js_sub _ NaN = NaN"
| "js_sub (Fin x) PosInf = NegInf"
| "js_sub (Fin x) NegInf = PosInf"
| "js_sub PosInf (Fin y) = PosInf"
| "js_sub NegInf (Fin y) = NegInf"
| "js_sub PosInf PosInf = NaN"
| "js_sub PosInf NegInf = PosInf"
| "js_sub NegInf PosInf = NegInf"
| "js_sub NegInf NegInf = NaN"

text \<open>\<open>a < b\<close> and \<open>a > b\<close>: false as soon as one side is \<open>NaN\<close>.\<close>

fun js_less :: "jsnum \<Rightarrow> jsnum \<Rightarrow> bool" where
  "js_less (Fin x) (Fin y) = (x < y)"
| "js_less NaN _ = False"
| "js_less _ NaN = False"
| "js_less _ NegInf = False"
| "js_less PosInf _ = False"
| "js_less (Fin x) PosInf = True"
| "js_less NegInf (Fin y) = True"
| "js_less NegInf PosInf = True"

definition js_greater :: "jsnum \<Rightarrow> jsnum \<Rightarrow> bool" where
  "js_greater a b = js_less b a"

text \<open>\<open>Math.min\<close> and \<open>Math.max\<close> of two arguments: \<open>NaN\<close> if either is.\<close>

definition Math_min :: "jsnum \<Rightarrow> jsnum \<Rightarrow> jsnum" where
  "Math_min a b = (if a = NaN \<or> b = NaN then NaN else if js_less b a then b else a)"

definition Math_max :: "jsnum \<Rightarrow> jsnum \<Rightarrow> jsnum" where
  "Math_max a b = (if a = NaN \<or> b = NaN then NaN else if js_less a b then b else a)"

fun Math_log10 :: "jsnum \<Rightarrow> jsnum" where
  "Math_log10 (Fin x) = (if x < 0 then NaN else if x = 0 then NegInf else Fin (log 10 x))"
| "Math_log10 NaN = NaN"
| "Math_log10 PosInf = PosInf"
| "Math_log10 NegInf = NaN"




text \<open>Truthiness of a number, as \<open>if (x)\<close>, \<open>!x\<close> and \<open>x || d\<close> test it.\<close>

fun truthy :: "jsnum \<Rightarrow> bool" where
  "truthy (Fin x) = (x \<noteq> 0)"
| "truthy NaN = False"
| "truthy PosInf = True"
| "truthy NegInf = True"





section \<open>Numbers and strings\<close>

definition digit_char :: "nat \<Rightarrow> char" where
  "digit_char n = ''0123456789'' ! (n mod 10)"

text \<open>The decimal digits of a natural number, \<open>''0''\<close> for zero.\<close>

fun digits_of :: "nat \<Rightarrow> string" where
  "digits_of n = (if n < 10 then [digit_char n] else digits_of (n div 10) @ [digit_char (n mod 10)])"

declare digits_of.simps [simp del]

text \<open>
  \<open>Number.prototype.toString\<close> for a number of magnitude \<open>10^21\<close> or more writes the
  exponent form. The idealised value has no shortest round-trip digit string, so the
  model writes 17 significant digits, trailing zeros removed; no result below depends on
  this branch beyond its being total.
\<close>

fun strip_zeros :: "string \<Rightarrow> string" where
  "strip_zeros s = rev (dropWhile (\<lambda>c. c = CHR ''0'') (rev s))"

definition exp_string :: "real \<Rightarrow> string" where
  "exp_string x =
     (let n = length (digits_of (nat \<lfloor>x\<rfloor>)) - 1;
          s = digits_of (nat \<lfloor>x / 10 ^ (n - 16) + 1 / 2\<rfloor>);
          frac = strip_zeros (tl s)
      in [hd s] @ (if frac = [] then [] else CHR ''.'' # frac) @ ''e+'' @ digits_of n)"

text \<open>
  \<open>Number.prototype.toFixed(d)\<close>: the integer nearest to \<open>x * 10^d\<close>, the larger one
  on a tie, written with \<open>d\<close> digits after the point; a negative \<open>x\<close> is written as
  a minus sign before the digits of \<open>- x\<close>.
\<close>

definition padded_digits :: "nat \<Rightarrow> nat \<Rightarrow> string" where
  "padded_digits n d = replicate (d + 1 - length (digits_of n)) CHR ''0'' @ digits_of n"

definition fixed_digits :: "real \<Rightarrow> nat \<Rightarrow> string" where
  "fixed_digits x d =
     (let m = padded_digits (nat \<lfloor>x * 10 ^ d + 1 / 2\<rfloor>) d;
          k = length m - d
      in if d = 0 then m else take k m @ CHR ''.'' # drop k m)"

fun toFixed :: "jsnum \<Rightarrow> nat \<Rightarrow> string" where
  "toFixed NaN d = ''NaN''"
| "toFixed PosInf d = ''Infinity''"
| "toFixed NegInf d = ''-Infinity''"
| "toFixed (Fin x) d =
     (if 10 ^ 21 \<le> \<bar>x\<bar> then (if x < 0 then CHR ''-'' # exp_string (- x) else exp_string x)
      else if x < 0 then CHR ''-'' # fixed_digits (- x) d
      else fixed_digits x d)"


text \<open>
  \<open>parseFloat\<close>: leading white space is skipped, then the longest prefix that is a decimal
  literal is read: a sign, then \<open>Infinity\<close> or digits with an optional fraction and an
  optional exponent. Whatever follows is ignored; with no digits the result is \<open>NaN\<close>.
\<close>

definition is_digit :: "char \<Rightarrow> bool" where
  "is_digit c = (c \<in> set ''0123456789'')"

definition is_space :: "char \<Rightarrow> bool" where
  "is_space c = (c \<in> set [CHR '' '', CHR 0x09, CHR 0x0A, CHR 0x0B, CHR 0x0C, CHR 0x0D])"

definition digit_val :: "char \<Rightarrow> nat" where
  "digit_val c = of_char c - 48"

fun digits_val :: "nat \<Rightarrow> string \<Rightarrow> nat" where
  "digits_val acc [] = acc"
| "digits_val acc (c # cs) = digits_val (acc * 10 + digit_val c) cs"

text \<open>The exponent part \<open>e[+-]digits\<close>, or 0 when what follows is not one.\<close>

fun parse_exponent :: "string \<Rightarrow> int" where
  "parse_exponent (e # s) =
     (if e = CHR ''e'' \<or> e = CHR ''E'' then
        (case s of
           [] \<Rightarrow> 0
         | c # r \<Rightarrow>
             if c = CHR ''-'' then
               (if takeWhile is_digit r = [] then 0 else - int (digits_val 0 (takeWhile is_digit r)))
             else if c = CHR ''+'' then int (digits_val 0 (takeWhile is_digit r))
             else int (digits_val 0 (takeWhile is_digit s)))
      else 0)"
| "parse_exponent [] = 0"

definition scale10 :: "real \<Rightarrow> int \<Rightarrow> real" where
  "scale10 v k = (if 0 \<le> k then v * 10 ^ nat k else v / 10 ^ nat (- k))"

definition parse_unsigned :: "string \<Rightarrow> jsnum" where
  "parse_unsigned s =
     (if take 8 s = ''Infinity'' then PosInf
      else
        let ip = takeWhile is_digit s;
            r = dropWhile is_digit s;
            fp = (case r of [] \<Rightarrow> [] | c # r' \<Rightarrow> if c = CHR ''.'' then takeWhile is_digit r' else []);
            r2 = (case r of [] \<Rightarrow> [] | c # r' \<Rightarrow> if c = CHR ''.'' then dropWhile is_digit r' else r)
        in if ip = [] \<and> fp = [] then NaN
           else Fin (scale10 (real (digits_val 0 (ip @ fp))) (parse_exponent r2 - int (length fp))))"

definition parseFloat :: "string \<Rightarrow> jsnum" where
  "parseFloat s =
     (case dropWhile is_space s of
        [] \<Rightarrow> NaN
      | c # r \<Rightarrow>
          if c = CHR ''-'' then js_sub (Fin 0) (parse_unsigned r)
          else if c = CHR ''+'' then parse_unsigned r
          else parse_unsigned (c # r))"


section \<open>Constants\<close>

datatype TokenType = APT | USDC | USDT | DAI

fun symbol :: "TokenType \<Rightarrow> string" where
  "symbol APT = ''APT''"
| "symbol USDC = ''USDC''"
| "symbol USDT = ''USDT''"
| "symbol DAI = ''DAI''"

record TokenInfo =
  address :: string
  decimals :: nat

definition APTOS_COINS :: "TokenType \<Rightarrow> TokenInfo option" where
  "APTOS_COINS t = Some
     (case t of
        APT \<Rightarrow> \<lparr>address = ''0x1::aptos_coin::AptosCoin'', decimals = 8\<rparr>
      | USDC \<Rightarrow> \<lparr>address = ''0xf22bede237a07e121b56d91a491eb7bcdfd1f5907926a9e58338f964a01b17fa::asset::USDC'', decimals = 6\<rparr>
      | USDT \<Rightarrow> \<lparr>address = ''0xf22bede237a07e121b56d91a491eb7bcdfd1f5907926a9e58338f964a01b17fa::asset::USDT'', decimals = 6\<rparr>
      | DAI \<Rightarrow> \<lparr>address = ''0xf22bede237a07e121b56d91a491eb7bcdfd1f5907926a9e58338f964a01b17fa::asset::DAI'', decimals = 6\<rparr>)"

definition APTOS_TESTNET_COINS :: "TokenType \<Rightarrow> TokenInfo option" where
  "APTOS_TESTNET_COINS t = Some
     (case t of
        APT \<Rightarrow> \<lparr>address = ''0x1::aptos_coin::AptosCoin'', decimals = 8\<rparr>
      | USDC \<Rightarrow> \<lparr>address = ''0x8c805723ebc0a7fc5b7d3e7b75d567918e806b3461cb9fa21941a9edc0220bf::devnet_coins::DevnetUSDC'', decimals = 6\<rparr>
      | USDT \<Rightarrow> \<lparr>address = ''0x8c805723ebc0a7fc5b7d3e7b75d567918e806b3461cb9fa21941a9edc0220bf::devnet_coins::DevnetUSDT'', decimals = 6\<rparr>
      | DAI \<Rightarrow> \<lparr>address = ''0x8c805723ebc0a7fc5b7d3e7b75d567918e806b3461cb9fa21941a9edc0220bf::devnet_coins::DevnetDAI'', decimals = 6\<rparr>)"

datatype DexKey = PANCAKE | LIQUIDSWAP | AUX | THALA | PANORA

record DexInfo =
  dex_name :: string
  router :: string
  testnetRouter :: "string option"
  dex_fee :: real
  dex_gasEstimate :: real
  liquiditySource :: string
  url :: string

fun APTOS_DEXES :: "DexKey \<Rightarrow> DexInfo" where
  "APTOS_DEXES PANCAKE =
     \<lparr>dex_name = ''PancakeSwap'',
      router = ''0xc7efb4076dbe143cbcd98cfaaa929ecfc8f299203dfff63b95ccb6bfe19850fa'',
      testnetRouter = Some ''0xc7efb4076dbe143cbcd98cfaaa929ecfc8f299203dfff63b95ccb6bfe19850fa'',
      dex_fee = 0.003, dex_gasEstimate = 0.0002,
      liquiditySource = ''PancakeSwap AMM'', url = ''https://pancakeswap.finance/aptos/swap''\<rparr>"
| "APTOS_DEXES LIQUIDSWAP =
     \<lparr>dex_name = ''Liquidswap'',
      router = ''0x190d44266241744264b964a37b8f09863167a12d3e70cda39376cfb4e3561e12'',
      testnetRouter = Some ''0x305d6fe5d70b02e9c7d5b0f2f5e5934c6a0d9b867d6e2c4c6fad7c293e0cd8c5'',
      dex_fee = 0.003, dex_gasEstimate = 0.00025,
      liquiditySource = ''Liquidswap AMM'', url = ''https://liquidswap.com/''\<rparr>"
| "APTOS_DEXES AUX =
     \<lparr>dex_name = ''AUX Exchange'',
      router = ''0x8b7311d78d47e37d09435b8dc37c14afd977c5cbc5f1bc2a615ef159a58b2d1d'',
      testnetRouter = None,
      dex_fee = 0.003, dex_gasEstimate = 0.00022,
      liquiditySource = ''AUX AMM'', url = ''https://aux.exchange/''\<rparr>"
| "APTOS_DEXES THALA =
     \<lparr>dex_name = ''Thala'',
      router = ''0x7c0321a4d97c3bea5892d9c6a4f5e2a369a3a7d3824cee3f9c6e1e273b384e8c'',
      testnetRouter = None,
      dex_fee = 0.003, dex_gasEstimate = 0.00023,
      liquiditySource = ''Thala AMM'', url = ''https://app.thala.fi/swap''\<rparr>"
| "APTOS_DEXES PANORA =
     \<lparr>dex_name = ''Panora'',
      router = ''0x8f396e4246b2ba87b51c0739ef5ea4f26515a98375308c31ac2ec1e42142a57f'',
      testnetRouter = Some ''0x8f396e4246b2ba87b51c0739ef5ea4f26515a98375308c31ac2ec1e42142a57f'',
      dex_fee = 0.002, dex_gasEstimate = 0.0002,
      liquiditySource = ''Panora DEX Aggregator'', url = ''https://app.panora.exchange''\<rparr>"

text \<open>The registry's keys in the order \<open>Object.entries\<close> and \<open>Object.values\<close> list them.\<close>

definition dex_keys :: "DexKey list" where
  "dex_keys = [PANCAKE, LIQUIDSWAP, AUX, THALA, PANORA]"

definition COINGECKO_IDS :: "string \<Rightarrow> string option" where
  "COINGECKO_IDS s =
     (if s = ''APT'' then Some ''aptos''
      else if s = ''USDC'' then Some ''usd-coin''
      else if s = ''USDT'' then Some ''tether''
      else if s = ''DAI'' then Some ''dai''
      else None)"

definition lower_char :: "char \<Rightarrow> char" where
  "lower_char c =
     (case map_of (zip ''ABCDEFGHIJKLMNOPQRSTUVWXYZ'' ''abcdefghijklmnopqrstuvwxyz'') c of
        Some l \<Rightarrow> l
      | None \<Rightarrow> c)"

definition toLowerCase :: "string \<Rightarrow> string" where
  "toLowerCase s = map lower_char s"

section \<open>Service state and the outside world\<close>

text \<open>
  Every service is a process-wide singleton; the state of the process is one record of
  the four service objects, the clock that \<open>Date.now()\<close> reads (milliseconds) and the
  log of requests sent upstream. Opaque payloads (market data, transaction payloads) are
  values of unspecified types.
\<close>

typedecl json

datatype upstream_call =
    PriceApi int string
  | PoolApi int string
  | QuoteApi int
  | ResourcesApi int string

record TokenPriceResponse =
  price :: real
  timestamp :: int

record PriceService =
  priceCache :: "string \<rightharpoonup> TokenPriceResponse"
  price_marketDataCache :: "string \<rightharpoonup> json \<times> int"
  lastApiCall :: int

record PoolData =
  tvl :: "real option"

record DexService =
  poolCache :: "string \<rightharpoonup> PoolData"
  poolCacheTimestamp :: int
  dex_isTestnet :: bool

record SwapService =
  panoraClient :: "string option"
  swap_isTestnet :: bool
  swap_networkUrl :: string

record RateEntry =
  rate :: jsnum
  rate_timestamp :: int

record DeFiService =
  client :: string
  defi_isTestnet :: bool
  defi_networkUrl :: string
  testnetRatesCache :: "string \<rightharpoonup> RateEntry"
  marketDataCache :: "json option"
  marketDataTimestamp :: int

record world =
  clock :: int
  calls :: "upstream_call list"
  priceService :: PriceService
  dexService :: DexService
  swapService :: SwapService
  defiService :: DeFiService

text \<open>
  The upstream services are parameters: each answers a request made at a given time, or
  fails (\<open>None\<close>). A price response maps a CoinGecko id to its \<open>usd\<close> field; a
  liquidity response is the body of the reply, \<open>None\<close> when the body is empty or
  \<open>null\<close>. Requests are answered at once: a network call takes no time on the clock.
\<close>

record PanoraRoute =
  r_name :: "string option"
  r_fee :: "string option"
  r_toTokenAmount :: "string option"
  r_priceImpact :: "string option"
  r_estimatedGas :: "string option"

record PanoraData =
  d_toTokenAmount :: "string option"
  d_priceImpact :: "string option"
  d_estimatedGas :: "string option"
  d_routes :: "PanoraRoute list"
  d_transactionPayload :: "json option"
  d_rawTransaction :: "json option"

record ResourceData =
  reserve_x :: "string option"
  reserve_y :: "string option"

record Resource =
  res_type :: string
  res_data :: "ResourceData option"

record env =
  coingecko :: "int \<Rightarrow> string \<Rightarrow> (string \<rightharpoonup> real) option"
  liquidity :: "int \<Rightarrow> string \<Rightarrow> PoolData option option"
  panora_new :: "string \<Rightarrow> bool"
  panora_quote :: "int \<Rightarrow> bool \<Rightarrow> string \<Rightarrow> string \<Rightarrow> string \<Rightarrow> PanoraData option option"
  account_resources :: "int \<Rightarrow> string \<Rightarrow> Resource list option"

datatype error =
    RequestFailed
  | NoPriceData
  | NoPriceAvailable
  | TokenNotFound
  | NoValidQuotes
  | InvalidAmount

section \<open>PriceService\<close>

definition CACHE_DURATION :: int where
  "CACHE_DURATION = 5 * 60 * 1000"

definition API_RATE_LIMIT :: int where
  "API_RATE_LIMIT = 1100"

text \<open>
  \<open>withRateLimit\<close> reads the clock, sleeps for what is missing to 1.1 seconds since the
  last upstream call, then records the time and runs the request. The two halves, before
  and after the \<open>await\<close>, are separate definitions: a single caller runs one after the
  other.
\<close>

definition rate_limit_delay :: "world \<Rightarrow> int option" where
  "rate_limit_delay w =
     (let now = clock w;
          timeSinceLastCall = now - lastApiCall (priceService w)
      in if timeSinceLastCall < API_RATE_LIMIT then Some (API_RATE_LIMIT - timeSinceLastCall)
         else None)"

definition rate_limit_resume :: "world \<Rightarrow> (world \<Rightarrow> 'a \<times> world) \<Rightarrow> 'a \<times> world" where
  "rate_limit_resume w fn = fn (w\<lparr>priceService := (priceService w)\<lparr>lastApiCall := clock w\<rparr>\<rparr>)"

definition withRateLimit :: "world \<Rightarrow> (world \<Rightarrow> 'a \<times> world) \<Rightarrow> 'a \<times> world" where
  "withRateLimit w fn =
     (case rate_limit_delay w of
        Some d \<Rightarrow> rate_limit_resume (w\<lparr>clock := clock w + d\<rparr>) fn
      | None \<Rightarrow> rate_limit_resume w fn)"

text \<open>The static default prices used when nothing else is known.\<close>

definition is_stable :: "TokenType \<Rightarrow> bool" where
  "is_stable t = (t = USDC \<or> t = USDT \<or> t = DAI)"

text \<open>The request of \<open>fetchTokenPrice\<close>, run under the rate limiter.\<close>

definition fetch_request :: "env \<Rightarrow> TokenType \<Rightarrow> world \<Rightarrow> (error + real) \<times> world" where
  "fetch_request e token w =
     (case COINGECKO_IDS (symbol token) of
        None \<Rightarrow>
          (if token = APT then Inr 6.75 else if is_stable token then Inr 1 else Inr 1, w)
      | Some geckoId \<Rightarrow>
          let w' = w\<lparr>calls := calls w @ [PriceApi (clock w) geckoId]\<rparr>
          in (case coingecko e (clock w) geckoId of
                None \<Rightarrow> (Inl RequestFailed, w')
              | Some data \<Rightarrow>
                  (case data geckoId of
                     None \<Rightarrow> (Inl NoPriceData, w')
                   | Some p \<Rightarrow> if p = 0 then (Inl NoPriceData, w') else (Inr p, w'))))"

definition fetchTokenPrice :: "env \<Rightarrow> world \<Rightarrow> TokenType \<Rightarrow> (error + real) \<times> world" where
  "fetchTokenPrice e w token = withRateLimit w (fetch_request e token)"

definition cache_fresh :: "world \<Rightarrow> TokenType \<Rightarrow> bool" where
  "cache_fresh w token =
     (case priceCache (priceService w) (toLowerCase (symbol token)) of
        None \<Rightarrow> False
      | Some c \<Rightarrow> clock w - timestamp c < CACHE_DURATION)"

text \<open>
  What \<open>getTokenPriceWithCache\<close> does with the outcome of the fetch: a price is stored
  under the time read when the lookup began; after a failure the stale entry is served,
  then the static defaults.
\<close>

definition store_price ::
  "int \<Rightarrow> TokenType \<Rightarrow> TokenPriceResponse option \<Rightarrow> (error + real) \<times> world \<Rightarrow> (error + real) \<times> world" where
  "store_price now token cachedPrice res =
     (case res of
        (Inr p, w') \<Rightarrow>
          (Inr p,
           w'\<lparr>priceService := (priceService w')
                \<lparr>priceCache := (priceCache (priceService w'))
                   (toLowerCase (symbol token) \<mapsto> \<lparr>price = p, timestamp = now\<rparr>)\<rparr>\<rparr>)
      | (Inl err, w') \<Rightarrow>
          (case cachedPrice of
             Some c \<Rightarrow> (Inr (price c), w')
           | None \<Rightarrow>
               if token = APT then (Inr 6.75, w')
               else if is_stable token then (Inr 1, w')
               else (Inl NoPriceAvailable, w')))"

definition getTokenPriceWithCache :: "env \<Rightarrow> world \<Rightarrow> TokenType \<Rightarrow> (error + real) \<times> world" where
  "getTokenPriceWithCache e w token =
     (let cacheKey = toLowerCase (symbol token);
          cachedPrice = priceCache (priceService w) cacheKey;
          now = clock w
      in case cachedPrice of
           None \<Rightarrow> store_price now token cachedPrice (fetchTokenPrice e w token)
         | Some c \<Rightarrow>
             if now - timestamp c < CACHE_DURATION then (Inr (price c), w)
             else store_price now token cachedPrice (fetchTokenPrice e w token))"

text \<open>
  Lookups started together, as \<open>Promise.all\<close> over a list of symbols starts them. The
  runtime is single-threaded: each lookup runs up to its first \<open>await\<close> before the next
  one starts, so every lookup reads the clock and the last-call time before any sleeper
  wakes. A lookup that need not wait sends its request at once; one that must wait is
  queued with its wake-up time and the time at which it began. The timers then fire in the
  order of their wake-up times, and each woken lookup runs the second half of
  \<open>withRateLimit\<close>.
\<close>

definition start_lookup ::
  "env \<Rightarrow> TokenType \<Rightarrow> world \<times> (int \<times> TokenType \<times> int) list \<Rightarrow> world \<times> (int \<times> TokenType \<times> int) list" where
  "start_lookup e token st =
     (let w = fst st; sleeping = snd st;
          cachedPrice = priceCache (priceService w) (toLowerCase (symbol token))
      in if cache_fresh w token then st
         else
           (case rate_limit_delay w of
              None \<Rightarrow>
                (snd (store_price (clock w) token cachedPrice
                        (rate_limit_resume w (fetch_request e token))), sleeping)
            | Some d \<Rightarrow> (w, sleeping @ [(clock w + d, token, clock w)])))"

definition wake :: "env \<Rightarrow> int \<times> TokenType \<times> int \<Rightarrow> world \<Rightarrow> world" where
  "wake e sl w =
     (let token = fst (snd sl);
          w1 = w\<lparr>clock := max (clock w) (fst sl)\<rparr>;
          cachedPrice = priceCache (priceService w1) (toLowerCase (symbol token))
      in snd (store_price (snd (snd sl)) token cachedPrice
                (rate_limit_resume w1 (fetch_request e token))))"

definition concurrent_lookups :: "env \<Rightarrow> world \<Rightarrow> TokenType list \<Rightarrow> world" where
  "concurrent_lookups e w tokens =
     (let st = fold (start_lookup e) tokens (w, [])
      in fold (wake e) (sort_key fst (snd st)) (fst st))"

fun price_call_times :: "upstream_call list \<Rightarrow> int list" where
  "price_call_times [] = []"
| "price_call_times (PriceApi t i # cs) = t # price_call_times cs"
| "price_call_times (c # cs) = price_call_times cs"

text \<open>Consecutive entries of a list of times are at least \<open>d\<close> apart.\<close>

fun spaced :: "int \<Rightarrow> int list \<Rightarrow> bool" where
  "spaced d (a # b # ts) = (d \<le> b - a \<and> spaced d (b # ts))"
| "spaced d ts = True"

section \<open>DexService\<close>

definition POOL_CACHE_DURATION :: int where
  "POOL_CACHE_DURATION = 5 * 60 * 1000"

definition DexService_setTestnetMode :: "bool \<Rightarrow> world \<Rightarrow> world" where
  "DexService_setTestnetMode isTestnet w =
     w\<lparr>dexService := (dexService w)\<lparr>dex_isTestnet := isTestnet\<rparr>\<rparr>"

text \<open>
  \<open>fetchPoolData\<close>: one request per DEX, each with its own handler, so a failed request
  only leaves that DEX without an entry; the cache is then cleared and rebuilt. Nothing
  in the body can raise past those handlers, so the outer handler has nothing to catch.
\<close>

definition fetchPoolData :: "env \<Rightarrow> world \<Rightarrow> world" where
  "fetchPoolData e w =
     (let now = clock w; ds = dexService w
      in if poolCache ds \<noteq> Map.empty \<and> now - poolCacheTimestamp ds < POOL_CACHE_DURATION then w
         else
           let results = map (\<lambda>k. (dex_name (APTOS_DEXES k),
                                     liquidity e now (liquiditySource (APTOS_DEXES k)))) dex_keys;
               cache = fold (\<lambda>r m. case snd r of Some (Some d) \<Rightarrow> m(fst r \<mapsto> d) | _ \<Rightarrow> m)
                         results Map.empty
           in w\<lparr>calls := calls w @ map (\<lambda>k. PoolApi now (liquiditySource (APTOS_DEXES k))) dex_keys,
                 dexService := ds\<lparr>poolCache := cache, poolCacheTimestamp := now\<rparr>\<rparr>)"

record DexQuote =
  q_dex :: DexKey
  dexName :: string
  outputAmount :: string
  q_priceImpact :: string
  q_fee :: real
  q_dexUrl :: string
  gasEstimate :: real

text \<open>The approximate prices substituted in the handlers of a failed price lookup.\<close>

definition fallback_prices :: "TokenType \<Rightarrow> TokenType \<Rightarrow> real \<times> real \<Rightarrow> real \<times> real" where
  "fallback_prices tokenIn tokenOut pr =
     (let tokenInPrice = (if tokenIn = APT then 6.75 else fst pr);
          tokenOutPrice = (if tokenOut = APT then 6.75 else snd pr);
          tokenInPrice = (if is_stable tokenIn then 1 else tokenInPrice);
          tokenOutPrice = (if is_stable tokenOut then 1 else tokenOutPrice)
      in (tokenInPrice, tokenOutPrice))"

text \<open>
  The two price lookups of \<open>getDexQuote\<close>. Each price is assigned as soon as its lookup
  returns, so when the second lookup fails the first price is already set.
\<close>

definition quote_prices :: "env \<Rightarrow> world \<Rightarrow> TokenType \<Rightarrow> TokenType \<Rightarrow> (real \<times> real) \<times> world" where
  "quote_prices e w tokenIn tokenOut =
     (case getTokenPriceWithCache e w tokenIn of
        (Inl err, w1) \<Rightarrow> (fallback_prices tokenIn tokenOut (1, 1), w1)
      | (Inr tokenInPrice, w1) \<Rightarrow>
          (case getTokenPriceWithCache e w1 tokenOut of
             (Inl err, w2) \<Rightarrow> (fallback_prices tokenIn tokenOut (tokenInPrice, 1), w2)
           | (Inr tokenOutPrice, w2) \<Rightarrow> ((tokenInPrice, tokenOutPrice), w2)))"

definition liquidityFactor :: "real \<Rightarrow> jsnum" where
  "liquidityFactor poolTVL =
     (if poolTVL \<noteq> 0
      then Math_min (Fin 1.0)
             (Math_max (Fin 0.9) (js_div (Math_log10 (Fin poolTVL)) (Math_log10 (Fin 1000000))))
      else Fin 1.0)"

definition slippageFactor :: "jsnum \<Rightarrow> real \<Rightarrow> real \<Rightarrow> jsnum" where
  "slippageFactor amount tokenInPrice poolTVL =
     (let amountUsd = js_mul amount (Fin tokenInPrice)
      in Math_min (Fin 0.1) (js_div amountUsd (Fin (if poolTVL \<noteq> 0 then poolTVL else 1000000))))"

text \<open>
  The estimate of \<open>getDexQuote\<close> once the prices are known. \<open>poolTVL\<close> starts at 0 and
  takes the pool's \<open>tvl\<close> when that field is truthy, so it is the field's value, or 0
  when the field is absent. The fee's display string is not modelled: \<open>q_fee\<close> is the
  number \<open>dex.fee * 100\<close> it is made from.
\<close>

definition quote_from_prices ::
  "DexKey \<Rightarrow> real \<Rightarrow> real \<Rightarrow> (string \<rightharpoonup> PoolData) \<Rightarrow> jsnum \<Rightarrow> DexQuote option" where
  "quote_from_prices dexKey tokenInPrice tokenOutPrice pools amount =
     (let dex = APTOS_DEXES dexKey
      in if tokenInPrice = 0 \<or> tokenOutPrice = 0 then None
         else
           (case pools (dex_name dex) of
              None \<Rightarrow> None
            | Some poolData \<Rightarrow>
                let poolTVL = (case tvl poolData of Some t \<Rightarrow> t | None \<Rightarrow> 0);
                    perfectOutput = js_div (js_mul amount (Fin tokenInPrice)) (Fin tokenOutPrice);
                    afterFeeAmount = js_mul amount (Fin (1 - dex_fee dex));
                    output = js_mul
                               (js_mul (js_mul perfectOutput (liquidityFactor poolTVL))
                                  (js_sub (Fin 1) (slippageFactor amount tokenInPrice poolTVL)))
                               (js_div afterFeeAmount amount)
                in Some \<lparr>q_dex = dexKey, dexName = dex_name dex,
                         outputAmount = toFixed output 6,
                         q_priceImpact =
                           toFixed (js_mul (slippageFactor amount tokenInPrice poolTVL) (Fin 100)) 2,
                         q_fee = dex_fee dex * 100, q_dexUrl = url dex,
                         gasEstimate = dex_gasEstimate dex\<rparr>))"

definition getDexQuote ::
  "env \<Rightarrow> world \<Rightarrow> DexKey \<Rightarrow> TokenType \<Rightarrow> TokenType \<Rightarrow> jsnum \<Rightarrow> DexQuote option \<times> world" where
  "getDexQuote e w dexKey tokenIn tokenOut amount =
     (case quote_prices e w tokenIn tokenOut of
        (pr, w') \<Rightarrow>
          (quote_from_prices dexKey (fst pr) (snd pr) (poolCache (dexService w')) amount, w'))"

text \<open>
  \<open>getAllDexQuotes\<close> refreshes the pool cache, then asks every DEX in registry order.
  The source starts the five quotes together (\<open>Promise.all\<close>); here they are computed
  one after the other. The two differ in the upstream price requests that are sent and in
  the clock: started together, every quote that finds no fresh price sends its own
  request, while here the first one fills the cache for the others. They do not differ in
  the quotes as long as the price source gives each of those requests the same answer.
\<close>

fun quotes_in_order ::
  "env \<Rightarrow> world \<Rightarrow> DexKey list \<Rightarrow> TokenType \<Rightarrow> TokenType \<Rightarrow> jsnum \<Rightarrow> DexQuote option list \<times> world" where
  "quotes_in_order e w [] tokenIn tokenOut amount = ([], w)"
| "quotes_in_order e w (k # ks) tokenIn tokenOut amount =
     (case getDexQuote e w k tokenIn tokenOut amount of
        (q, w1) \<Rightarrow>
          (case quotes_in_order e w1 ks tokenIn tokenOut amount of
             (qs, w2) \<Rightarrow> (q # qs, w2)))"

definition getAllDexQuotes ::
  "env \<Rightarrow> world \<Rightarrow> TokenType \<Rightarrow> TokenType \<Rightarrow> jsnum \<Rightarrow> DexQuote option list \<times> world" where
  "getAllDexQuotes e w tokenIn tokenOut amount =
     quotes_in_order e (fetchPoolData e w) dex_keys tokenIn tokenOut amount"

text \<open>The token table of the network in use.\<close>

definition token_info :: "bool \<Rightarrow> TokenType \<Rightarrow> TokenInfo option" where
  "token_info isTestnet t = (if isTestnet then APTOS_TESTNET_COINS t else APTOS_COINS t)"

definition getTokenAddress :: "TokenType \<Rightarrow> bool \<Rightarrow> error + string" where
  "getTokenAddress token isTestnet =
     (case token_info isTestnet token of
        None \<Rightarrow> Inl TokenNotFound
      | Some tokenInfo \<Rightarrow> Inr (address tokenInfo))"



section \<open>SwapService\<close>

record AlternativeRoute =
  alt_protocol :: string
  alt_expectedOutput :: string
  alt_priceImpact :: string
  alt_estimatedGas :: jsnum

record RouteToken =
  rt_symbol :: string
  rt_address :: string
  rt_decimals :: nat

record PathStep =
  p_dex :: string
  p_tokenIn :: string
  p_tokenOut :: string
  p_fee :: string

record SwapRoute =
  fromToken :: string
  toToken :: string
  fromAmount :: string
  expectedOutput :: string
  priceImpact :: jsnum
  estimatedGas :: jsnum
  dex :: string
  protocol :: string
  alternativeRoutes :: "AlternativeRoute list"
  swapPayload :: "json option"
  tokenIn_info :: "RouteToken option"
  tokenOut_info :: "RouteToken option"
  amount_field :: "string option"
  path :: "PathStep list"
  dexUrl :: "string option"

definition network_url :: "bool \<Rightarrow> string" where
  "network_url isTestnet =
     (if isTestnet then ''https://fullnode.testnet.aptoslabs.com/v1''
      else ''https://fullnode.mainnet.aptoslabs.com/v1'')"

text \<open>
  The aggregator client is known by the node URL it was built with; \<open>None\<close> is the
  \<open>null\<close> client. Building a client may fail, which leaves the field as it was.
\<close>

definition SwapService_setTestnetMode :: "env \<Rightarrow> bool \<Rightarrow> world \<Rightarrow> world" where
  "SwapService_setTestnetMode e isTestnet w =
     (let ss = (swapService w)\<lparr>swap_isTestnet := isTestnet, swap_networkUrl := network_url isTestnet\<rparr>;
          ss' = (if panora_new e (network_url isTestnet)
                 then ss\<lparr>panoraClient := Some (network_url isTestnet)\<rparr> else ss)
      in DexService_setTestnetMode isTestnet (w\<lparr>swapService := ss'\<rparr>))"

text \<open>\<open>x || d\<close> on an optional string: the default replaces a missing or empty one.\<close>

definition or_default :: "string option \<Rightarrow> string \<Rightarrow> string" where
  "or_default x d = (case x of None \<Rightarrow> d | Some s \<Rightarrow> if s = [] then d else s)"

text \<open>\<open>x ? parseFloat(x) : d\<close> on an optional string.\<close>

definition parse_or :: "string option \<Rightarrow> real \<Rightarrow> jsnum" where
  "parse_or x d = (case x of None \<Rightarrow> Fin d | Some s \<Rightarrow> if s = [] then Fin d else parseFloat s)"

definition with_0x :: "string \<Rightarrow> string" where
  "with_0x a = (if take 2 a = ''0x'' then a else ''0x'' @ a)"

definition route_token :: "TokenType \<Rightarrow> string \<Rightarrow> TokenInfo \<Rightarrow> RouteToken" where
  "route_token t a info = \<lparr>rt_symbol = symbol t, rt_address = a, rt_decimals = decimals info\<rparr>"

text \<open>The route built from the aggregator's reply, its first candidate being the best.\<close>

definition aggregator_swap_route ::
  "TokenType \<Rightarrow> TokenType \<Rightarrow> string \<Rightarrow> string \<Rightarrow> string \<Rightarrow> TokenInfo \<Rightarrow> TokenInfo
     \<Rightarrow> PanoraData \<Rightarrow> PanoraRoute \<Rightarrow> PanoraRoute list \<Rightarrow> SwapRoute" where
  "aggregator_swap_route tokenIn tokenOut amount fromTokenAddress toTokenAddress
       tokenInInfo tokenOutInfo data bestRoute others =
     \<lparr>fromToken = symbol tokenIn, toToken = symbol tokenOut,
      fromAmount = amount,
      expectedOutput = or_default (d_toTokenAmount data) ''0'',
      priceImpact = parse_or (d_priceImpact data) 0.5,
      estimatedGas = parse_or (d_estimatedGas data) 0.0001,
      dex = or_default (r_name bestRoute) ''Aptos DEX'',
      protocol = or_default (r_name bestRoute) ''Aptos DEX Aggregator'',
      alternativeRoutes =
        map (\<lambda>route.
               \<lparr>alt_protocol = or_default (r_name route) ''Aptos DEX'',
                alt_expectedOutput = or_default (r_toTokenAmount route) ''0'',
                alt_priceImpact = or_default (r_priceImpact route) ''0.5'',
                alt_estimatedGas = parse_or (r_estimatedGas route) 0.0002\<rparr>)
            others,
      swapPayload =
        (case d_transactionPayload data of
           Some pl \<Rightarrow> Some pl | None \<Rightarrow> d_rawTransaction data),
      tokenIn_info = Some (route_token tokenIn fromTokenAddress tokenInInfo),
      tokenOut_info = Some (route_token tokenOut toTokenAddress tokenOutInfo),
      amount_field = Some amount,
      path = [\<lparr>p_dex = or_default (r_name bestRoute) ''Aptos DEX'',
               p_tokenIn = symbol tokenIn, p_tokenOut = symbol tokenOut,
               p_fee = or_default (r_fee bestRoute) ''0.3%''\<rparr>],
      dexUrl = Some ''https://aptoslabs.com''\<rparr>"

text \<open>
  The first tier of \<open>getBestSwapRoute\<close>: the aggregator's quote. The result is the route
  built from the reply when it lists at least one candidate, \<open>None\<close> when there is no
  client, no data or no candidate, and an error when something in the inner \<open>try\<close>
  raises.
\<close>

definition aggregator_route ::
  "env \<Rightarrow> world \<Rightarrow> TokenType \<Rightarrow> TokenType \<Rightarrow> string \<Rightarrow> (error + SwapRoute option) \<times> world" where
  "aggregator_route e w tokenIn tokenOut amount =
     (let isTestnet = swap_isTestnet (swapService w)
      in case panoraClient (swapService w) of
           None \<Rightarrow> (Inr None, w)
         | Some c \<Rightarrow>
             (case getTokenAddress tokenIn isTestnet of
                Inl err \<Rightarrow> (Inl err, w)
              | Inr fromTokenAddress \<Rightarrow>
                  (case getTokenAddress tokenOut isTestnet of
                     Inl err \<Rightarrow> (Inl err, w)
                   | Inr toTokenAddress \<Rightarrow>
                       let w1 = w\<lparr>calls := calls w @ [QuoteApi (clock w)]\<rparr>
                       in (case panora_quote e (clock w) isTestnet (with_0x fromTokenAddress)
                                  (with_0x toTokenAddress) amount of
                             None \<Rightarrow> (Inl RequestFailed, w1)
                           | Some None \<Rightarrow> (Inr None, w1)
                           | Some (Some data) \<Rightarrow>
                               (case d_routes data of
                                  [] \<Rightarrow> (Inr None, w1)
                                | bestRoute # others \<Rightarrow>
                                    (case token_info isTestnet tokenIn of
                                       None \<Rightarrow> (Inl TokenNotFound, w1)
                                     | Some tokenInInfo \<Rightarrow>
                                         (case token_info isTestnet tokenOut of
                                            None \<Rightarrow> (Inl TokenNotFound, w1)
                                          | Some tokenOutInfo \<Rightarrow>
                                              (Inr (Some (aggregator_swap_route tokenIn tokenOut amount
                                                     fromTokenAddress toTokenAddress tokenInInfo
                                                     tokenOutInfo data bestRoute others)), w1))))))))"

text \<open>
  \<open>Array.prototype.sort\<close> with a comparator is stable: an element moves behind another
  only when the comparator is positive on the pair, and a comparator result of \<open>NaN\<close>
  counts as 0. Insertion from the right gives that order whenever the comparator is
  consistent; where it is not (an output that is not a number), the order depends on the
  engine's algorithm, and the example given for that case below is one on which
  insertion from the right and the binary insertion of V8 agree.
\<close>

fun insert_by :: "('a \<Rightarrow> 'a \<Rightarrow> jsnum) \<Rightarrow> 'a \<Rightarrow> 'a list \<Rightarrow> 'a list" where
  "insert_by cmp x [] = [x]"
| "insert_by cmp x (y # ys) =
     (if js_greater (cmp x y) (Fin 0) then y # insert_by cmp x ys else x # y # ys)"

definition sort_by :: "('a \<Rightarrow> 'a \<Rightarrow> jsnum) \<Rightarrow> 'a list \<Rightarrow> 'a list" where
  "sort_by cmp xs = foldr (insert_by cmp) xs []"

definition by_output_desc :: "DexQuote \<Rightarrow> DexQuote \<Rightarrow> jsnum" where
  "by_output_desc a b = js_sub (parseFloat (outputAmount b)) (parseFloat (outputAmount a))"

definition gas_or_default :: "real \<Rightarrow> jsnum" where
  "gas_or_default g = Fin (if g \<noteq> 0 then g else 0.0002)"

definition alternative_of :: "DexQuote \<Rightarrow> AlternativeRoute" where
  "alternative_of quote =
     \<lparr>alt_protocol = dexName quote, alt_expectedOutput = outputAmount quote,
      alt_priceImpact = q_priceImpact quote, alt_estimatedGas = gas_or_default (gasEstimate quote)\<rparr>"

text \<open>
  The second tier, once the fan-out has returned: the present quotes sorted by output,
  the first one as the route, the others as alternatives; no quote at all raises.
\<close>

definition route_from_quotes ::
  "TokenType \<Rightarrow> TokenType \<Rightarrow> string \<Rightarrow> DexQuote option list \<Rightarrow> error + SwapRoute" where
  "route_from_quotes tokenIn tokenOut amount allQuotes =
     (let validQuotes = sort_by by_output_desc (List.map_filter (\<lambda>q. q) allQuotes)
      in case validQuotes of
           [] \<Rightarrow> Inl NoValidQuotes
         | bestQuote # others \<Rightarrow>
             Inr \<lparr>fromToken = symbol tokenIn, toToken = symbol tokenOut, fromAmount = amount,
                  expectedOutput = outputAmount bestQuote,
                  priceImpact = parseFloat (q_priceImpact bestQuote),
                  estimatedGas = gas_or_default (gasEstimate bestQuote),
                  dex = dexName bestQuote, protocol = dexName bestQuote,
                  alternativeRoutes = map alternative_of others,
                  swapPayload = None, tokenIn_info = None, tokenOut_info = None,
                  amount_field = None, path = [], dexUrl = None\<rparr>)"

text \<open>
  The prices of the last tier: both lookups are awaited before either price is assigned,
  so a failure of the second leaves both at their defaults; a price of 0 is not taken.
\<close>

definition fallback_route_prices ::
  "env \<Rightarrow> world \<Rightarrow> TokenType \<Rightarrow> TokenType \<Rightarrow> (real \<times> real) \<times> world" where
  "fallback_route_prices e w tokenIn tokenOut =
     (case getTokenPriceWithCache e w tokenIn of
        (Inl err, w1) \<Rightarrow> (fallback_prices tokenIn tokenOut (1, 1), w1)
      | (Inr cachedInPrice, w1) \<Rightarrow>
          (case getTokenPriceWithCache e w1 tokenOut of
             (Inl err, w2) \<Rightarrow> (fallback_prices tokenIn tokenOut (1, 1), w2)
           | (Inr cachedOutPrice, w2) \<Rightarrow>
               ((if cachedInPrice \<noteq> 0 then cachedInPrice else 1,
                 if cachedOutPrice \<noteq> 0 then cachedOutPrice else 1), w2)))"

definition generateFallbackSwapRoute ::
  "env \<Rightarrow> world \<Rightarrow> TokenType \<Rightarrow> TokenType \<Rightarrow> string \<Rightarrow> (error + SwapRoute) \<times> world" where
  "generateFallbackSwapRoute e w tokenIn tokenOut amount =
     (let inputAmount = parseFloat amount
      in case fallback_route_prices e w tokenIn tokenOut of
           (pr, w') \<Rightarrow>
             let expected = toFixed (js_div (js_mul inputAmount (Fin (fst pr))) (Fin (snd pr))) 6
             in (Inr \<lparr>fromToken = symbol tokenIn, toToken = symbol tokenOut, fromAmount = amount,
                      expectedOutput = expected,
                      priceImpact = Fin 0.5,
                      estimatedGas = Fin 0.0002,
                      dex = ''PancakeSwap'', protocol = ''PancakeSwap'',
                      alternativeRoutes =
                        [\<lparr>alt_protocol = ''Liquidswap'',
                          alt_expectedOutput = toFixed (js_mul (parseFloat expected) (Fin 0.995)) 6,
                          alt_priceImpact = ''0.7'',
                          alt_estimatedGas = Fin 0.00025\<rparr>],
                      swapPayload = None, tokenIn_info = None, tokenOut_info = None,
                      amount_field = None, path = [], dexUrl = None\<rparr>, w'))"

definition getFallbackSwapRoute ::
  "env \<Rightarrow> world \<Rightarrow> TokenType \<Rightarrow> TokenType \<Rightarrow> string \<Rightarrow> (error + SwapRoute) \<times> world" where
  "getFallbackSwapRoute e w tokenIn tokenOut amount =
     (let inputAmt = parseFloat amount
      in case getAllDexQuotes e w tokenIn tokenOut inputAmt of
           (allQuotes, w1) \<Rightarrow>
             (case route_from_quotes tokenIn tokenOut amount allQuotes of
                Inr r \<Rightarrow> (Inr r, w1)
              | Inl err \<Rightarrow> generateFallbackSwapRoute e w1 tokenIn tokenOut amount))"

definition getBestSwapRoute ::
  "env \<Rightarrow> world \<Rightarrow> TokenType \<Rightarrow> TokenType \<Rightarrow> string \<Rightarrow> (error + SwapRoute) \<times> world" where
  "getBestSwapRoute e w tokenIn tokenOut amount =
     (case aggregator_route e w tokenIn tokenOut amount of
        (Inr (Some swapRoute), w1) \<Rightarrow> (Inr swapRoute, w1)
      | (Inr None, w1) \<Rightarrow> getFallbackSwapRoute e w1 tokenIn tokenOut amount
      | (Inl panoraError, w1) \<Rightarrow> getFallbackSwapRoute e w1 tokenIn tokenOut amount)"


section \<open>DeFiService\<close>

definition TESTNET_RATES_CACHE_DURATION :: int where
  "TESTNET_RATES_CACHE_DURATION = 60 * 1000"

definition DeFiService_setTestnetMode :: "env \<Rightarrow> bool \<Rightarrow> world \<Rightarrow> world" where
  "DeFiService_setTestnetMode e isTestnet w =
     (let w1 = w\<lparr>defiService := (defiService w)
                   \<lparr>defi_isTestnet := isTestnet, defi_networkUrl := network_url isTestnet,
                    client := network_url isTestnet\<rparr>\<rparr>;
          w2 = SwapService_setTestnetMode e isTestnet w1;
          w3 = DexService_setTestnetMode (defi_isTestnet (defiService w2)) w2
      in w3\<lparr>defiService := (defiService w3)
               \<lparr>testnetRatesCache := Map.empty, marketDataCache := None, marketDataTimestamp := 0\<rparr>\<rparr>)"

fun str_includes :: "string \<Rightarrow> string \<Rightarrow> bool" where
  "str_includes [] sub = (sub = [])"
| "str_includes (c # cs) sub = (take (length sub) (c # cs) = sub \<or> str_includes cs sub)"

text \<open>\<open>parseFloat\<close> of a field that may be missing: \<open>NaN\<close> for \<open>undefined\<close>.\<close>

definition parse_field :: "string option \<Rightarrow> jsnum" where
  "parse_field x = (case x of None \<Rightarrow> NaN | Some s \<Rightarrow> parseFloat s)"

definition best_quote_rate :: "DexQuote option list \<Rightarrow> jsnum" where
  "best_quote_rate quotes =
     fold (\<lambda>quote bestRate.
             case quote of
               None \<Rightarrow> bestRate
             | Some q \<Rightarrow> if js_greater (parseFloat (outputAmount q)) bestRate
                         then parseFloat (outputAmount q) else bestRate)
          quotes (Fin 0)"

definition pancakePoolAddress :: string where
  "pancakePoolAddress = ''0xc7efb4076dbe143cbcd98cfaaa929ecfc8f299203dfff63b95ccb6bfe19850fa''"

text \<open>The direct query of the pool's reserves, tried for the APT/USDC pair only.\<close>

definition reserves_rate :: "env \<Rightarrow> world \<Rightarrow> TokenType \<Rightarrow> TokenType \<Rightarrow> jsnum \<Rightarrow> jsnum \<times> world" where
  "reserves_rate e w tokenIn tokenOut bestRate =
     (if (tokenIn = APT \<and> tokenOut = USDC) \<or> (tokenIn = USDC \<and> tokenOut = APT) then
        (let w1 = w\<lparr>calls := calls w @ [ResourcesApi (clock w) pancakePoolAddress]\<rparr>
         in case account_resources e (clock w) pancakePoolAddress of
              None \<Rightarrow> (bestRate, w1)
            | Some resources \<Rightarrow>
                (case find (\<lambda>r. str_includes (res_type r) ''swap::TokenPairReserve''
                                \<and> str_includes (res_type r) ''AptosCoin''
                                \<and> str_includes (res_type r) ''DevnetUSDC'') resources of
                   None \<Rightarrow> (bestRate, w1)
                 | Some poolResource \<Rightarrow>
                     (case res_data poolResource of
                        None \<Rightarrow> (bestRate, w1)
                      | Some data \<Rightarrow>
                          let reserve0 = parse_field (reserve_x data);
                              reserve1 = parse_field (reserve_y data)
                          in if tokenIn = APT \<and> tokenOut = USDC
                             then (js_div reserve1 reserve0, w1)
                             else (js_div reserve0 reserve1, w1))))
      else (bestRate, w))"

definition fallbackRate :: "TokenType \<Rightarrow> TokenType \<Rightarrow> jsnum" where
  "fallbackRate tokenIn tokenOut =
     (if tokenIn = APT \<and> tokenOut = USDC then Fin 58.034
      else if tokenIn = USDC \<and> tokenOut = APT then Fin 0.0172
      else Fin 10)"

text \<open>
  \<open>getTestnetExchangeRate\<close>. Nothing inside its \<open>try\<close> raises past an inner handler
  (the fan-out returns absent quotes instead of raising, the resource query has its own
  handler), so the outer handler, which stores and returns the same fallback rates, has
  nothing to catch.
\<close>

definition fetch_testnet_rate ::
  "env \<Rightarrow> world \<Rightarrow> TokenType \<Rightarrow> TokenType \<Rightarrow> jsnum \<times> world" where
  "fetch_testnet_rate e w tokenIn tokenOut =
     (let cacheKey = symbol tokenIn @ ''-'' @ symbol tokenOut;
          now = clock w
      in case getAllDexQuotes e w tokenIn tokenOut (Fin 1) of
           (quotes, w1) \<Rightarrow>
             let bestRate = best_quote_rate quotes
             in (case (if bestRate = Fin 0 then reserves_rate e w1 tokenIn tokenOut bestRate
                       else (bestRate, w1)) of
                   (bestRate2, w2) \<Rightarrow>
                     let bestRate3 = (if bestRate2 = Fin 0 then fallbackRate tokenIn tokenOut
                                      else bestRate2)
                     in (bestRate3,
                         w2\<lparr>defiService := (defiService w2)
                              \<lparr>testnetRatesCache := (testnetRatesCache (defiService w2))
                                 (cacheKey \<mapsto> \<lparr>rate = bestRate3, rate_timestamp = now\<rparr>)\<rparr>\<rparr>)))"

definition getTestnetExchangeRate ::
  "env \<Rightarrow> world \<Rightarrow> TokenType \<Rightarrow> TokenType \<Rightarrow> jsnum \<times> world" where
  "getTestnetExchangeRate e w tokenIn tokenOut =
     (let cacheKey = symbol tokenIn @ ''-'' @ symbol tokenOut;
          now = clock w
      in case testnetRatesCache (defiService w) cacheKey of
           None \<Rightarrow> fetch_testnet_rate e w tokenIn tokenOut
         | Some cachedRate \<Rightarrow>
             if now - rate_timestamp cachedRate < TESTNET_RATES_CACHE_DURATION
             then (rate cachedRate, w)
             else fetch_testnet_rate e w tokenIn tokenOut)"

section \<open>Auxiliary definitions for the statements\<close>

text \<open>The CoinGecko id of a token, as \<open>COINGECKO_IDS\<close> lists it.\<close>

definition gecko :: "TokenType \<Rightarrow> string" where
  "gecko t = (case t of APT \<Rightarrow> ''aptos'' | USDC \<Rightarrow> ''usd-coin'' | USDT \<Rightarrow> ''tether'' | DAI \<Rightarrow> ''dai'')"

text \<open>
  The state in which a single lookup sends its request: the clock after the rate
  limiter's wait, recorded as the last call.
\<close>

definition at_request :: "world \<Rightarrow> world" where
  "at_request w =
     (let t = (case rate_limit_delay w of Some d \<Rightarrow> clock w + d | None \<Rightarrow> clock w)
      in w\<lparr>clock := t, priceService := (priceService w)\<lparr>lastApiCall := t\<rparr>\<rparr>)"

text \<open>A freshly started process at time \<open>t\<close> and two outside worlds for examples.\<close>

definition cold_world :: "int \<Rightarrow> world" where
  "cold_world t =
     \<lparr>clock = t, calls = [],
      priceService = \<lparr>priceCache = Map.empty, price_marketDataCache = Map.empty, lastApiCall = 0\<rparr>,
      dexService = \<lparr>poolCache = Map.empty, poolCacheTimestamp = 0, dex_isTestnet = True\<rparr>,
      swapService = \<lparr>panoraClient = Some (network_url True), swap_isTestnet = True,
                     swap_networkUrl = network_url True\<rparr>,
      defiService = \<lparr>client = network_url True, defi_isTestnet = True,
                     defi_networkUrl = network_url True, testnetRatesCache = Map.empty,
                     marketDataCache = None, marketDataTimestamp = 0\<rparr>\<rparr>"

definition env_down :: env where
  "env_down =
     \<lparr>coingecko = (\<lambda>t i. None), liquidity = (\<lambda>t s. None), panora_new = (\<lambda>u. True),
      panora_quote = (\<lambda>t b f g a. None), account_resources = (\<lambda>t a. None)\<rparr>"


text \<open>A running process whose price and pool caches hold entries fetched one second ago.\<close>

definition warm_world :: world where
  "warm_world =
     (cold_world 1000000)
       \<lparr>priceService := \<lparr>priceCache = [''apt'' \<mapsto> \<lparr>price = 6.5, timestamp = 999000\<rparr>],
                          price_marketDataCache = Map.empty, lastApiCall = 999000\<rparr>,
        dexService := \<lparr>poolCache = [''PancakeSwap'' \<mapsto> \<lparr>tvl = Some 2000000\<rparr>],
                        poolCacheTimestamp = 999000, dex_isTestnet = True\<rparr>\<rparr>"

text \<open>
  An outside world in which the price and liquidity services are down and the on-chain
  APT/USDC pair exists with both reserves at zero.
\<close>

definition env_empty_pool :: env where
  "env_empty_pool =
     \<lparr>coingecko = (\<lambda>t i. None), liquidity = (\<lambda>t s. None), panora_new = (\<lambda>u. True),
      panora_quote = (\<lambda>t b f g a. None),
      account_resources = (\<lambda>t a. Some
        [\<lparr>res_type = ''0xc7efb4076dbe143cbcd98cfaaa929ecfc8f299203dfff63b95ccb6bfe19850fa::swap::TokenPairReserve<0x1::aptos_coin::AptosCoin, 0x8c805723ebc0a7fc5b7d3e7b75d567918e806b3461cb9fa21941a9edc0220bf::devnet_coins::DevnetUSDC>'',
          res_data = Some \<lparr>reserve_x = Some ''0'', reserve_y = Some ''0''\<rparr>\<rparr>])\<rparr>"

text \<open>The spacing invariant of the upstream price calls, for callers that take turns.\<close>

definition calls_spaced :: "world \<Rightarrow> bool" where
  "calls_spaced w =
     (spaced API_RATE_LIMIT (price_call_times (calls w))
      \<and> (\<forall>t \<in> set (price_call_times (calls w)). t \<le> lastApiCall (priceService w)))"

text \<open>The number a quote's output string stands for, when it is one.\<close>

definition output_value :: "DexQuote \<Rightarrow> real" where
  "output_value q = (case parseFloat (outputAmount q) of Fin x \<Rightarrow> x | _ \<Rightarrow> 0)"

text \<open>
  An outside world in which the price service is down and three of the five liquidity
  sources answer, with no \<open>tvl\<close> field.
\<close>

definition env_pools :: env where
  "env_pools =
     \<lparr>coingecko = (\<lambda>t i. None),
      liquidity = (\<lambda>t s. if s = ''PancakeSwap AMM'' \<or> s = ''Thala AMM'' \<or> s = ''Panora DEX Aggregator''
                          then Some (Some \<lparr>tvl = None\<rparr>)
                          else if s = ''AUX AMM'' then Some None else None),
      panora_new = (\<lambda>u. True),
      panora_quote = (\<lambda>t b f g a. None), account_resources = (\<lambda>t a. None)\<rparr>"

text \<open>A quote with a given name and output, for examples of the selection.\<close>

definition example_quote :: "DexKey \<Rightarrow> string \<Rightarrow> DexQuote" where
  "example_quote k out =
     \<lparr>q_dex = k, dexName = dex_name (APTOS_DEXES k), outputAmount = out,
      q_priceImpact = ''0.07'', q_fee = dex_fee (APTOS_DEXES k) * 100,
      q_dexUrl = url (APTOS_DEXES k), gasEstimate = dex_gasEstimate (APTOS_DEXES k)\<rparr>"

text \<open>The static default price of a token.\<close>

definition default_price :: "TokenType \<Rightarrow> real" where
  "default_price t = (if t = APT then 6.75 else 1)"

text \<open>
  Upstream data and cached data as the data model describes them: prices positive, pool
  TVL not negative.
\<close>

definition env_sane :: "env \<Rightarrow> bool" where
  "env_sane e =
     ((\<forall>t i data g p. coingecko e t i = Some data \<longrightarrow> data g = Some p \<longrightarrow> 0 < p)
      \<and> (\<forall>t s pd v. liquidity e t s = Some (Some pd) \<longrightarrow> tvl pd = Some v \<longrightarrow> 0 \<le> v))"

definition world_sane :: "world \<Rightarrow> bool" where
  "world_sane w =
     ((\<forall>key c. priceCache (priceService w) key = Some c \<longrightarrow> 0 < price c)
      \<and> (\<forall>n pd v. poolCache (dexService w) n = Some pd \<longrightarrow> tvl pd = Some v \<longrightarrow> 0 \<le> v))"

text \<open>
  A process whose pool cache holds a PancakeSwap snapshot without a \<open>tvl\<close> field and a
  Liquidswap snapshot with a TVL of 500000, and whose price cache is empty.
\<close>

definition pool_world :: world where
  "pool_world =
     (cold_world 1000000)
       \<lparr>dexService := \<lparr>poolCache = [''PancakeSwap'' \<mapsto> \<lparr>tvl = None\<rparr>,
                                    ''Liquidswap'' \<mapsto> \<lparr>tvl = Some 500000\<rparr>],
                        poolCacheTimestamp = 999000, dex_isTestnet = True\<rparr>\<rparr>"

text \<open>A quote whose output string reads as a non-negative number.\<close>

definition quote_ok :: "DexQuote \<Rightarrow> bool" where
  "quote_ok q = (\<exists>ov. parseFloat (outputAmount q) = Fin ov \<and> 0 \<le> ov)"


section \<open>Properties\<close>

subsection \<open>The price cache\<close>

lemma toLowerCase_symbol:
  "toLowerCase (symbol t) = (case t of APT \<Rightarrow> ''apt'' | USDC \<Rightarrow> ''usdc'' | USDT \<Rightarrow> ''usdt'' | DAI \<Rightarrow> ''dai'')"
  by (cases t) (simp_all add: toLowerCase_def lower_char_def)

lemma COINGECKO_IDS_symbol: "COINGECKO_IDS (symbol t) = Some (gecko t)"
  by (cases t) (simp_all add: COINGECKO_IDS_def gecko_def)

lemma fetchTokenPrice_eq:
  "fetchTokenPrice e w tok = fetch_request e tok (at_request w)"
  by (simp add: fetchTokenPrice_def withRateLimit_def rate_limit_resume_def at_request_def Let_def
      split: option.splits)

lemma fetch_request_frame:
  "priceCache (priceService (snd (fetch_request e tok w))) = priceCache (priceService w)"
  "lastApiCall (priceService (snd (fetch_request e tok w))) = lastApiCall (priceService w)"
  "clock (snd (fetch_request e tok w)) = clock w"
  "dexService (snd (fetch_request e tok w)) = dexService w"
  "swapService (snd (fetch_request e tok w)) = swapService w"
  "defiService (snd (fetch_request e tok w)) = defiService w"
  "calls (snd (fetch_request e tok w)) = calls w @ [PriceApi (clock w) (gecko tok)]"
  by (simp_all add: fetch_request_def COINGECKO_IDS_symbol Let_def split: option.splits)

lemma at_request_frame:
  "priceCache (priceService (at_request w)) = priceCache (priceService w)"
  "dexService (at_request w) = dexService w"
  "swapService (at_request w) = swapService w"
  "defiService (at_request w) = defiService w"
  "calls (at_request w) = calls w"
  by (simp_all add: at_request_def Let_def)

lemma store_price_frame:
  "dexService (snd (store_price now tok c r)) = dexService (snd r)"
  "swapService (snd (store_price now tok c r)) = swapService (snd r)"
  "defiService (snd (store_price now tok c r)) = defiService (snd r)"
  "calls (snd (store_price now tok c r)) = calls (snd r)"
  "clock (snd (store_price now tok c r)) = clock (snd r)"
  "lastApiCall (priceService (snd (store_price now tok c r))) = lastApiCall (priceService (snd r))"
  by (simp_all add: store_price_def split: prod.splits sum.splits option.splits)

lemma lookup_fresh:
  assumes "cache_fresh w tok"
  shows "\<exists>c. priceCache (priceService w) (toLowerCase (symbol tok)) = Some c
     \<and> getTokenPriceWithCache e w tok = (Inr (price c), w)"
  using assms by (auto simp: cache_fresh_def getTokenPriceWithCache_def Let_def split: option.splits)

lemma lookup_stale:
  assumes "\<not> cache_fresh w tok"
  shows "getTokenPriceWithCache e w tok =
     store_price (clock w) tok (priceCache (priceService w) (toLowerCase (symbol tok)))
       (fetch_request e tok (at_request w))"
  using assms
  by (auto simp: cache_fresh_def getTokenPriceWithCache_def Let_def fetchTokenPrice_eq
      split: option.splits)

lemma lookup_stale_calls:
  assumes "\<not> cache_fresh w tok"
  shows "calls (snd (getTokenPriceWithCache e w tok))
           = calls w @ [PriceApi (clock (at_request w)) (gecko tok)]"
  by (simp add: lookup_stale[OF assms] store_price_frame fetch_request_frame at_request_frame)





subsection \<open>All upstream services failing\<close>

lemma lookup_down:
  assumes down: "\<And>t i. coingecko e t i = None"
  shows "priceCache (priceService (snd (getTokenPriceWithCache e w tok))) = priceCache (priceService w)"
    and "priceCache (priceService w) (toLowerCase (symbol tok)) = None \<Longrightarrow>
         fst (getTokenPriceWithCache e w tok) = Inr (if tok = APT then 6.75 else 1)"
proof -
  have fr: "fetch_request e tok (at_request w)
      = (Inl RequestFailed, (at_request w)\<lparr>calls := calls (at_request w) @ [PriceApi (clock (at_request w)) (gecko tok)]\<rparr>)"
    by (simp add: fetch_request_def COINGECKO_IDS_symbol down Let_def)
  show "priceCache (priceService (snd (getTokenPriceWithCache e w tok))) = priceCache (priceService w)"
    by (cases "cache_fresh w tok")
       (use lookup_fresh[of w tok e] in auto,
        simp add: lookup_stale fr store_price_def at_request_frame split: option.splits)
  show "fst (getTokenPriceWithCache e w tok) = Inr (if tok = APT then 6.75 else 1)"
    if "priceCache (priceService w) (toLowerCase (symbol tok)) = None"
  proof -
    have "\<not> cache_fresh w tok" using that by (simp add: cache_fresh_def)
    then have "getTokenPriceWithCache e w tok =
        store_price (clock w) tok None (fetch_request e tok (at_request w))"
      using that by (simp add: lookup_stale)
    then have "fst (getTokenPriceWithCache e w tok)
        = (if tok = APT then Inr 6.75 else if is_stable tok then Inr 1 else Inl NoPriceAvailable)"
      by (simp add: fr store_price_def)
    then show ?thesis
      by (cases tok) (simp_all add: is_stable_def)
  qed
qed

lemma getTokenPriceWithCache_frame:
  "dexService (snd (getTokenPriceWithCache e w tok)) = dexService w"
  "swapService (snd (getTokenPriceWithCache e w tok)) = swapService w"
  "defiService (snd (getTokenPriceWithCache e w tok)) = defiService w"
  by (simp_all add: getTokenPriceWithCache_def Let_def store_price_frame fetchTokenPrice_eq
      fetch_request_frame at_request_frame split: option.splits)

lemma quote_prices_frame:
  "dexService (snd (quote_prices e w a b)) = dexService w"
  "swapService (snd (quote_prices e w a b)) = swapService w"
  "defiService (snd (quote_prices e w a b)) = defiService w"
  unfolding quote_prices_def
  by (cases "getTokenPriceWithCache e w a"; cases "fst (getTokenPriceWithCache e w a)";
      cases "getTokenPriceWithCache e (snd (getTokenPriceWithCache e w a)) b";
      cases "fst (getTokenPriceWithCache e (snd (getTokenPriceWithCache e w a)) b)";
      use getTokenPriceWithCache_frame[of e w a]
          getTokenPriceWithCache_frame[of e "snd (getTokenPriceWithCache e w a)" b] in auto)+


lemma quote_prices_cache_down:
  assumes down: "\<And>t i. coingecko e t i = None"
  shows "priceCache (priceService (snd (quote_prices e w a b))) = priceCache (priceService w)"
proof -
  obtain r1 w1 where g1: "getTokenPriceWithCache e w a = (r1, w1)" by (cases "getTokenPriceWithCache e w a")
  obtain r2 w2 where g2: "getTokenPriceWithCache e w1 b = (r2, w2)" by (cases "getTokenPriceWithCache e w1 b")
  have c1: "priceCache (priceService w1) = priceCache (priceService w)"
    using lookup_down(1)[OF down, of w a] g1 by simp
  have c2: "priceCache (priceService w2) = priceCache (priceService w1)"
    using lookup_down(1)[OF down, of w1 b] g2 by simp
  show ?thesis
    by (simp add: quote_prices_def g1 g2 c1 c2 split: sum.splits)
qed

lemma fetchPoolData_frame:
  "priceService (fetchPoolData e w) = priceService w"
  "swapService (fetchPoolData e w) = swapService w"
  "defiService (fetchPoolData e w) = defiService w"
  "clock (fetchPoolData e w) = clock w"
  by (simp_all add: fetchPoolData_def Let_def)

lemma fetchPoolData_down:
  assumes "\<And>t s. liquidity e t s = None" "poolCache (dexService w) = Map.empty"
  shows "poolCache (dexService (fetchPoolData e w)) = Map.empty"
  using assms by (simp add: fetchPoolData_def Let_def dex_keys_def)

lemma getDexQuote_no_pool:
  assumes "poolCache (dexService w) = Map.empty"
  shows "fst (getDexQuote e w k a b amt) = None"
  using assms quote_prices_frame(1)[of e w a b]
  by (cases "quote_prices e w a b") (simp add: getDexQuote_def quote_from_prices_def Let_def)

lemma getDexQuote_frame:
  "dexService (snd (getDexQuote e w k a b amt)) = dexService w"
  "swapService (snd (getDexQuote e w k a b amt)) = swapService w"
  "defiService (snd (getDexQuote e w k a b amt)) = defiService w"
  "snd (getDexQuote e w k a b amt) = snd (quote_prices e w a b)"
  using quote_prices_frame[of e w a b]
  by (cases "quote_prices e w a b"; simp add: getDexQuote_def)+

lemma quotes_in_order_no_pool:
  assumes "poolCache (dexService w) = Map.empty"
  shows "fst (quotes_in_order e w ks a b amt) = replicate (length ks) None"
  using assms
proof (induction ks arbitrary: w)
  case Nil
  then show ?case by simp
next
  case (Cons k ks)
  obtain q w1 where g: "getDexQuote e w k a b amt = (q, w1)" by (cases "getDexQuote e w k a b amt")
  have q: "q = None" using getDexQuote_no_pool[OF Cons.prems, of e k a b amt] g by simp
  have "poolCache (dexService w1) = Map.empty"
    using getDexQuote_frame(1)[of e w k a b amt] g Cons.prems by simp
  from Cons.IH[OF this] show ?case
    by (cases "quotes_in_order e w1 ks a b amt") (simp add: g q)
qed

lemma quotes_in_order_cache_down:
  assumes down: "\<And>t i. coingecko e t i = None"
  shows "priceCache (priceService (snd (quotes_in_order e w ks a b amt))) = priceCache (priceService w)"
proof (induction ks arbitrary: w)
  case Nil
  then show ?case by simp
next
  case (Cons k ks)
  obtain q w1 where g: "getDexQuote e w k a b amt = (q, w1)" by (cases "getDexQuote e w k a b amt")
  have "priceCache (priceService w1) = priceCache (priceService w)"
    using quote_prices_cache_down[OF down, of w a b] getDexQuote_frame(4)[of e w k a b amt] g by simp
  with Cons.IH[of w1] show ?case
    by (cases "quotes_in_order e w1 ks a b amt") (simp add: g)
qed

lemma route_from_no_quotes:
  "route_from_quotes a b amt (replicate n None) = Inl NoValidQuotes"
proof -
  have "List.map_filter (\<lambda>q. q) (replicate n (None :: DexQuote option)) = []"
    by (induction n) (simp_all add: List.map_filter_simps)
  then show ?thesis by (simp add: route_from_quotes_def sort_by_def)
qed

lemma aggregator_route_frame:
  "priceService (snd (aggregator_route e w a b amt)) = priceService w"
  "dexService (snd (aggregator_route e w a b amt)) = dexService w"
  "swapService (snd (aggregator_route e w a b amt)) = swapService w"
  "defiService (snd (aggregator_route e w a b amt)) = defiService w"
  "clock (snd (aggregator_route e w a b amt)) = clock w"
  by (simp_all add: aggregator_route_def Let_def split: option.splits sum.splits list.splits)

lemma aggregator_route_fails:
  assumes "panoraClient (swapService w) = None \<or> (\<forall>t i f g x. panora_quote e t i f g x = None)"
  shows "fst (aggregator_route e w a b amt) \<noteq> Inr (Some r)"
  using assms
  by (auto simp: aggregator_route_def Let_def split: option.splits sum.splits list.splits)


lemmas parse_eval = parseFloat_def parse_unsigned_def is_digit_def is_space_def scale10_def digit_val_def
lemmas fixed_eval = fixed_digits_def padded_digits_def digits_of.simps digit_char_def

lemma fallback_route_prices_down:
  assumes down: "\<And>t i. coingecko e t i = None"
    and ca: "priceCache (priceService w) (toLowerCase (symbol a)) = None"
    and cb: "priceCache (priceService w) (toLowerCase (symbol b)) = None"
  shows "fst (fallback_route_prices e w a b) = (if a = APT then 6.75 else 1, if b = APT then 6.75 else 1)"
proof -
  obtain r1 w1 where g1: "getTokenPriceWithCache e w a = (r1, w1)" by (cases "getTokenPriceWithCache e w a")
  obtain r2 w2 where g2: "getTokenPriceWithCache e w1 b = (r2, w2)" by (cases "getTokenPriceWithCache e w1 b")
  have r1: "r1 = Inr (if a = APT then 6.75 else 1)"
    using lookup_down(2)[OF down ca] g1 by simp
  have "priceCache (priceService w1) = priceCache (priceService w)"
    using lookup_down(1)[OF down, of w a] g1 by simp
  then have "priceCache (priceService w1) (toLowerCase (symbol b)) = None" using cb by simp
  then have r2: "r2 = Inr (if b = APT then 6.75 else 1)"
    using lookup_down(2)[OF down, of w1 b] g2 by simp
  show ?thesis by (simp add: fallback_route_prices_def g1 g2 r1 r2)
qed

lemma getAllDexQuotes_down:
  assumes pools: "\<And>t s. liquidity e t s = None" "poolCache (dexService w) = Map.empty"
  shows "fst (getAllDexQuotes e w a b amt) = replicate 5 None"
proof -
  have "length dex_keys = 5" by (simp add: dex_keys_def)
  then show ?thesis
    unfolding getAllDexQuotes_def
    using quotes_in_order_no_pool[OF fetchPoolData_down[OF pools], of e dex_keys a b amt]
    by simp
qed

lemma getAllDexQuotes_cache_down:
  assumes down: "\<And>t i. coingecko e t i = None"
  shows "priceCache (priceService (snd (getAllDexQuotes e w a b amt))) = priceCache (priceService w)"
  by (simp add: getAllDexQuotes_def quotes_in_order_cache_down[OF down] fetchPoolData_frame)









subsection \<open>Switching the network\<close>

text \<open>
  Claim C3, as the code has it. \<open>DeFiService.setTestnetMode\<close> sets the three mode
  flags, the node URLs and the clients (the aggregator client only when building it
  succeeds), and clears the two caches of \<open>DeFiService\<close>: the testnet-rate cache and
  the market-data cache with its timestamp. The price service is left exactly as it was,
  and so are the pool cache and its timestamp, the clock and the log of upstream calls.
\<close>

theorem setTestnetMode_effect:
  "priceService (DeFiService_setTestnetMode e b w) = priceService w
   \<and> poolCache (dexService (DeFiService_setTestnetMode e b w)) = poolCache (dexService w)
   \<and> poolCacheTimestamp (dexService (DeFiService_setTestnetMode e b w)) = poolCacheTimestamp (dexService w)
   \<and> clock (DeFiService_setTestnetMode e b w) = clock w
   \<and> calls (DeFiService_setTestnetMode e b w) = calls w
   \<and> testnetRatesCache (defiService (DeFiService_setTestnetMode e b w)) = Map.empty
   \<and> marketDataCache (defiService (DeFiService_setTestnetMode e b w)) = None
   \<and> marketDataTimestamp (defiService (DeFiService_setTestnetMode e b w)) = 0
   \<and> defi_isTestnet (defiService (DeFiService_setTestnetMode e b w)) = b
   \<and> swap_isTestnet (swapService (DeFiService_setTestnetMode e b w)) = b
   \<and> dex_isTestnet (dexService (DeFiService_setTestnetMode e b w)) = b
   \<and> defi_networkUrl (defiService (DeFiService_setTestnetMode e b w)) = network_url b
   \<and> client (defiService (DeFiService_setTestnetMode e b w)) = network_url b
   \<and> swap_networkUrl (swapService (DeFiService_setTestnetMode e b w)) = network_url b
   \<and> panoraClient (swapService (DeFiService_setTestnetMode e b w))
        = (if panora_new e (network_url b) then Some (network_url b) else panoraClient (swapService w))"
  by (simp add: DeFiService_setTestnetMode_def SwapService_setTestnetMode_def
      DexService_setTestnetMode_def Let_def)

text \<open>
  The claim as stated fails: after a switch to mainnet the price cache still holds its
  APT entry and the pool cache its PancakeSwap entry; the next APT price lookup is served
  from the cache with the state unchanged, and the next pool refresh sends no request.
\<close>

theorem setTestnetMode_keeps_price_and_pool_cache:
  "priceCache (priceService (DeFiService_setTestnetMode env_down False warm_world)) ''apt''
     = Some \<lparr>price = 6.5, timestamp = 999000\<rparr>
   \<and> poolCache (dexService (DeFiService_setTestnetMode env_down False warm_world)) ''PancakeSwap''
     = Some \<lparr>tvl = Some 2000000\<rparr>
   \<and> getTokenPriceWithCache env_down (DeFiService_setTestnetMode env_down False warm_world) APT
     = (Inr 6.5, DeFiService_setTestnetMode env_down False warm_world)
   \<and> calls (fetchPoolData env_down (DeFiService_setTestnetMode env_down False warm_world)) = []"
  by (simp add: DeFiService_setTestnetMode_def SwapService_setTestnetMode_def
      DexService_setTestnetMode_def Let_def warm_world_def cold_world_def env_down_def
      getTokenPriceWithCache_def toLowerCase_def lower_char_def CACHE_DURATION_def
      fetchPoolData_def POOL_CACHE_DURATION_def)

subsection \<open>Formatting amounts\<close>

lemma below_ten:
  "(j::nat) < 10 \<Longrightarrow> j = 0 \<or> j = 1 \<or> j = 2 \<or> j = 3 \<or> j = 4 \<or> j = 5 \<or> j = 6 \<or> j = 7 \<or> j = 8 \<or> j = 9"
  by arith

lemma digit_val_digit_char: "k < 10 \<Longrightarrow> digit_val (digit_char k) = k"
  using below_ten[of k] by (auto simp: digit_val_def digit_char_def)

lemma is_digit_digit_char: "is_digit (digit_char k)"
proof -
  have "k mod 10 < 10" by simp
  from below_ten[OF this] show ?thesis
    unfolding digit_char_def is_digit_def by auto
qed

lemma digits_val_append: "digits_val acc (xs @ ys) = digits_val (digits_val acc xs) ys"
  by (induction xs arbitrary: acc) simp_all

lemma digits_val_digits_of: "digits_val 0 (digits_of n) = n"
proof (induction n rule: digits_of.induct)
  case (1 n)
  show ?case
  proof (cases "n < 10")
    case True
    then show ?thesis by (simp add: digits_of.simps[of n] digit_val_digit_char)
  next
    case False
    with 1 have "digits_val 0 (digits_of (n div 10)) = n div 10" by simp
    then show ?thesis
      using False by (simp add: digits_of.simps[of n] digits_val_append digit_val_digit_char)
  qed
qed


lemma digits_of_all_digits: "\<forall>c \<in> set (digits_of n). is_digit c"
proof (induction n rule: digits_of.induct)
  case (1 n)
  show ?case
  proof (cases "n < 10")
    case True
    then show ?thesis by (simp add: digits_of.simps[of n] is_digit_digit_char)
  next
    case False
    with 1 show ?thesis by (simp add: digits_of.simps[of n] is_digit_digit_char)
  qed
qed

lemma digits_of_nonempty: "digits_of n \<noteq> []"
  by (subst digits_of.simps) simp














subsection \<open>The rate limiter\<close>

lemma single_caller_waits:
  "API_RATE_LIMIT \<le> clock (at_request w) - lastApiCall (priceService w)"
  by (simp add: at_request_def rate_limit_delay_def Let_def)

lemma spaced_snoc:
  "spaced d ts \<Longrightarrow> (\<forall>t \<in> set ts. t + d \<le> u) \<Longrightarrow> spaced d (ts @ [u])"
  by (induction d ts rule: spaced.induct) auto

lemma price_call_times_append:
  "price_call_times (xs @ ys) = price_call_times xs @ price_call_times ys"
  by (induction xs rule: price_call_times.induct) simp_all

lemma sequential_lookups_spaced:
  assumes "calls_spaced w"
  shows "calls_spaced (snd (getTokenPriceWithCache e w tok))"
proof (cases "cache_fresh w tok")
  case True
  with lookup_fresh[OF True, of e] assms show ?thesis by auto
next
  case False
  let ?w1 = "snd (getTokenPriceWithCache e w tok)"
  let ?t = "clock (at_request w)"
  have c: "calls ?w1 = calls w @ [PriceApi ?t (gecko tok)]"
    by (rule lookup_stale_calls[OF False])
  have l: "lastApiCall (priceService ?w1) = ?t"
    by (simp add: lookup_stale[OF False] store_price_frame fetch_request_frame)
       (simp add: at_request_def Let_def)
  have gap: "\<forall>t \<in> set (price_call_times (calls w)). t + API_RATE_LIMIT \<le> ?t"
    using assms single_caller_waits[of w] by (fastforce simp: calls_spaced_def)
  have "0 \<le> API_RATE_LIMIT" by (simp add: API_RATE_LIMIT_def)
  with gap have le: "\<forall>t \<in> set (price_call_times (calls w)). t \<le> ?t" by fastforce
  show ?thesis
    using assms spaced_snoc[OF _ gap] le
    by (simp add: calls_spaced_def c l price_call_times_append)
qed

text \<open>
  Claim C8. Callers that take turns are kept 1.1 seconds apart (the two lemmas above),
  but lookups started together are not: three lookups of distinct symbols on a cold cache
  at time 1000000 send their requests at 1000000, 1001100 and 1001100. The second and the
  third lookup both read the last-call time before either sleeps, sleep for the same 1.1
  seconds and wake together.
\<close>

theorem concurrent_lookups_together:
  "price_call_times (calls (concurrent_lookups env_down (cold_world 1000000) [APT, USDC, USDT]))
     = [1000000, 1001100, 1001100]
   \<and> \<not> spaced API_RATE_LIMIT
        (price_call_times (calls (concurrent_lookups env_down (cold_world 1000000) [APT, USDC, USDT])))"
  by (simp add: concurrent_lookups_def start_lookup_def wake_def cache_fresh_def
      rate_limit_delay_def rate_limit_resume_def fetch_request_def store_price_def
      cold_world_def env_down_def COINGECKO_IDS_def toLowerCase_def lower_char_def
      API_RATE_LIMIT_def is_stable_def Let_def)

subsection \<open>The testnet exchange rate\<close>

lemma best_quote_rate_none: "best_quote_rate (replicate n None) = Fin 0"
proof -
  have "fold (\<lambda>quote bestRate.
             case quote of
               None \<Rightarrow> bestRate
             | Some q \<Rightarrow> if js_greater (parseFloat (outputAmount q)) bestRate
                         then parseFloat (outputAmount q) else bestRate)
          (replicate n None) r = r" for r
    by (induction n) simp_all
  then show ?thesis by (simp add: best_quote_rate_def)
qed

lemma reserves_eval:
  "fst (reserves_rate env_empty_pool w APT USDC (Fin 0)) = NaN"
  by (simp add: reserves_rate_def env_empty_pool_def pancakePoolAddress_def Let_def
      parse_field_def parse_eval)

lemma testnet_rate_cached:
  assumes "testnetRatesCache (defiService w) (symbol a @ ''-'' @ symbol b) = Some c"
    and "clock w - rate_timestamp c < TESTNET_RATES_CACHE_DURATION"
  shows "getTestnetExchangeRate e w a b = (rate c, w)"
  using assms by (simp add: getTestnetExchangeRate_def Let_def)

lemma fetch_testnet_rate_stored:
  "testnetRatesCache (defiService (snd (fetch_testnet_rate e w a b))) (symbol a @ ''-'' @ symbol b)
     = Some \<lparr>rate = fst (fetch_testnet_rate e w a b), rate_timestamp = clock w\<rparr>"
  by (simp add: fetch_testnet_rate_def Let_def split: prod.splits)

text \<open>
  Claim C9. A stored rate is returned unchanged for 60 seconds and every computed rate is
  stored (the two lemmas above), but the rate is not always a positive finite number: with
  no DEX quote and an on-chain APT/USDC pair whose reserves are both zero, the rate is
  \<open>0 / 0\<close>, which the test \<open>bestRate === 0\<close> does not replace by the fallback rate;
  \<open>NaN\<close> is returned and stored.
\<close>

theorem testnet_rate_empty_pool:
  "fst (getTestnetExchangeRate env_empty_pool (cold_world 1000000) APT USDC) = NaN
   \<and> testnetRatesCache
        (defiService (snd (getTestnetExchangeRate env_empty_pool (cold_world 1000000) APT USDC)))
        ''APT-USDC'' = Some \<lparr>rate = NaN, rate_timestamp = 1000000\<rparr>"
proof -
  let ?w = "cold_world 1000000"
  obtain qs w1 where q: "getAllDexQuotes env_empty_pool ?w APT USDC (Fin 1) = (qs, w1)"
    by (cases "getAllDexQuotes env_empty_pool ?w APT USDC (Fin 1)")
  have "fst (getAllDexQuotes env_empty_pool ?w APT USDC (Fin 1)) = replicate 5 None"
    by (rule getAllDexQuotes_down) (simp_all add: env_empty_pool_def cold_world_def)
  then have qs: "qs = replicate 5 None" using q by simp
  obtain r w2 where rr: "reserves_rate env_empty_pool w1 APT USDC (Fin 0) = (r, w2)"
    by (cases "reserves_rate env_empty_pool w1 APT USDC (Fin 0)")
  have r: "r = NaN" using reserves_eval[of w1] rr by simp
  have none: "testnetRatesCache (defiService ?w) (symbol APT @ ''-'' @ symbol USDC) = None"
    by (simp add: cold_world_def)
  have eq: "getTestnetExchangeRate env_empty_pool ?w APT USDC
              = fetch_testnet_rate env_empty_pool ?w APT USDC"
    using none by (simp add: getTestnetExchangeRate_def Let_def)
  have val: "fst (fetch_testnet_rate env_empty_pool ?w APT USDC) = NaN"
    by (simp add: fetch_testnet_rate_def Let_def q qs best_quote_rate_none rr r)
  have "clock ?w = 1000000" by (simp add: cold_world_def)
  then show ?thesis
    using fetch_testnet_rate_stored[of env_empty_pool ?w APT USDC] val
    by (simp add: eq)
qed

subsection \<open>Selecting among the fan-out quotes\<close>

lemma insert_by_mset: "mset (insert_by cmp x ys) = add_mset x (mset ys)"
  by (induction ys) simp_all

lemma sort_by_mset: "mset (sort_by cmp xs) = mset xs"
  unfolding sort_by_def by (induction xs) (simp_all add: insert_by_mset)

lemma insert_by_set: "set (insert_by cmp x ys) = insert x (set ys)"
  by (metis insert_by_mset set_mset_add_mset_insert set_mset_mset)

lemma by_output_desc_numeric:
  assumes "parseFloat (outputAmount a) = Fin x" "parseFloat (outputAmount b) = Fin y"
  shows "js_greater (by_output_desc a b) (Fin 0) \<longleftrightarrow> output_value a < output_value b"
  using assms by (simp add: by_output_desc_def js_greater_def output_value_def)

lemma insert_by_sorted:
  assumes "\<forall>q \<in> set (x # ys). \<exists>v. parseFloat (outputAmount q) = Fin v"
    and "sorted_wrt (\<lambda>a b. output_value b \<le> output_value a) ys"
  shows "sorted_wrt (\<lambda>a b. output_value b \<le> output_value a) (insert_by by_output_desc x ys)"
  using assms
proof (induction ys)
  case Nil
  then show ?case by simp
next
  case (Cons y ys)
  from Cons.prems(1) obtain vx vy where
    v: "parseFloat (outputAmount x) = Fin vx" "parseFloat (outputAmount y) = Fin vy"
    by auto
  show ?case
  proof (cases "output_value x < output_value y")
    case True
    have ih: "sorted_wrt (\<lambda>a b. output_value b \<le> output_value a) (insert_by by_output_desc x ys)"
      using Cons by simp
    show ?thesis
      using True Cons.prems(2) ih
      by (auto simp: by_output_desc_numeric[OF v] insert_by_set)
  next
    case False
    then show ?thesis
      using Cons.prems(2) by (auto simp: by_output_desc_numeric[OF v])
  qed
qed

lemma sort_by_sorted:
  assumes "\<forall>q \<in> set xs. \<exists>v. parseFloat (outputAmount q) = Fin v"
  shows "sorted_wrt (\<lambda>a b. output_value b \<le> output_value a) (sort_by by_output_desc xs)"
  using assms
proof (induction xs)
  case Nil
  then show ?case by (simp add: sort_by_def)
next
  case (Cons x xs)
  have s: "sort_by by_output_desc (x # xs) = insert_by by_output_desc x (sort_by by_output_desc xs)"
    by (simp add: sort_by_def)
  have "set (sort_by by_output_desc xs) = set xs"
    by (metis sort_by_mset set_mset_mset)
  with Cons show ?case
    unfolding s by (intro insert_by_sorted) auto
qed

text \<open>
  Claim C5, as the code has it. Let the fan-out return \<open>allQuotes\<close>. With no present quote
  the tier fails and \<open>getFallbackSwapRoute\<close> returns what the fallback synthesizer
  returns. When every present quote carries an output that reads as a finite number, the
  route is built from a rearrangement \<open>best # others\<close> of the present quotes that is in
  descending order of numeric output: \<open>best\<close>, whose output no present quote exceeds,
  gives the route's expected output, DEX, protocol and price impact, and \<open>others\<close>, in
  that descending order, are the alternative routes.
\<close>

theorem fanout_selection:
  assumes fanout: "getAllDexQuotes e w tokenIn tokenOut (parseFloat amount) = (allQuotes, w1)"
    and numeric: "\<forall>q \<in> set (List.map_filter (\<lambda>q. q) allQuotes). \<exists>v. parseFloat (outputAmount q) = Fin v"
  shows "(List.map_filter (\<lambda>q. q) allQuotes = [] \<longrightarrow>
            getFallbackSwapRoute e w tokenIn tokenOut amount
              = generateFallbackSwapRoute e w1 tokenIn tokenOut amount)
       \<and> (List.map_filter (\<lambda>q. q) allQuotes \<noteq> [] \<longrightarrow>
            (\<exists>best others r.
               getFallbackSwapRoute e w tokenIn tokenOut amount = (Inr r, w1)
               \<and> mset (best # others) = mset (List.map_filter (\<lambda>q. q) allQuotes)
               \<and> sorted_wrt (\<lambda>a b. output_value b \<le> output_value a) (best # others)
               \<and> (\<forall>q \<in> set (List.map_filter (\<lambda>q. q) allQuotes). output_value q \<le> output_value best)
               \<and> expectedOutput r = outputAmount best
               \<and> dex r = dexName best \<and> protocol r = dexName best
               \<and> priceImpact r = parseFloat (q_priceImpact best)
               \<and> alternativeRoutes r = map alternative_of others))"
proof -
  let ?valid = "List.map_filter (\<lambda>q. q) allQuotes"
  let ?sorted = "sort_by by_output_desc ?valid"
  have ms: "mset ?sorted = mset ?valid" by (rule sort_by_mset)
  have so: "sorted_wrt (\<lambda>a b. output_value b \<le> output_value a) ?sorted"
    using numeric by (rule sort_by_sorted)
  have empty: "getFallbackSwapRoute e w tokenIn tokenOut amount
              = generateFallbackSwapRoute e w1 tokenIn tokenOut amount" if "?valid = []"
    using that by (simp add: getFallbackSwapRoute_def fanout route_from_quotes_def sort_by_def)
  have nonempty: "\<exists>best others r.
               getFallbackSwapRoute e w tokenIn tokenOut amount = (Inr r, w1)
               \<and> mset (best # others) = mset ?valid
               \<and> sorted_wrt (\<lambda>a b. output_value b \<le> output_value a) (best # others)
               \<and> (\<forall>q \<in> set ?valid. output_value q \<le> output_value best)
               \<and> expectedOutput r = outputAmount best
               \<and> dex r = dexName best \<and> protocol r = dexName best
               \<and> priceImpact r = parseFloat (q_priceImpact best)
               \<and> alternativeRoutes r = map alternative_of others" if "?valid \<noteq> []"
  proof -
    from that ms have "?sorted \<noteq> []" by (metis mset_zero_iff)
    then obtain best others where bo: "?sorted = best # others" by (cases ?sorted) auto
    have st: "set ?valid = set (best # others)" using ms bo by (metis set_mset_mset)
    have top: "\<forall>q \<in> set ?valid. output_value q \<le> output_value best"
      using so unfolding bo st by auto
    show ?thesis
      apply (rule exI[of _ best], rule exI[of _ others])
      using ms so top
      by (simp add: getFallbackSwapRoute_def fanout route_from_quotes_def bo)
  qed
  show ?thesis using empty nonempty by blast
qed


lemma quote_prices_down:
  assumes down: "\<And>t i. coingecko e t i = None"
    and ca: "priceCache (priceService w) (toLowerCase (symbol a)) = None"
    and cb: "priceCache (priceService w) (toLowerCase (symbol b)) = None"
  shows "fst (quote_prices e w a b) = (default_price a, default_price b)"
proof -
  obtain r1 w1 where g1: "getTokenPriceWithCache e w a = (r1, w1)" by (cases "getTokenPriceWithCache e w a")
  obtain r2 w2 where g2: "getTokenPriceWithCache e w1 b = (r2, w2)" by (cases "getTokenPriceWithCache e w1 b")
  have r1: "r1 = Inr (default_price a)"
    using lookup_down(2)[OF down ca] g1 by (simp add: default_price_def)
  have "priceCache (priceService w1) = priceCache (priceService w)"
    using lookup_down(1)[OF down, of w a] g1 by simp
  then have "priceCache (priceService w1) (toLowerCase (symbol b)) = None" using cb by simp
  then have r2: "r2 = Inr (default_price b)"
    using lookup_down(2)[OF down, of w1 b] g2 by (simp add: default_price_def)
  show ?thesis by (simp add: quote_prices_def g1 g2 r1 r2)
qed

lemma quotes_in_order_down:
  assumes down: "\<And>t i. coingecko e t i = None"
    and ca: "priceCache (priceService w) (toLowerCase (symbol a)) = None"
    and cb: "priceCache (priceService w) (toLowerCase (symbol b)) = None"
  shows "fst (quotes_in_order e w ks a b amt)
     = map (\<lambda>k. quote_from_prices k (default_price a) (default_price b) (poolCache (dexService w)) amt) ks"
  using ca cb
proof (induction ks arbitrary: w)
  case Nil
  then show ?case by simp
next
  case (Cons k ks)
  obtain pr w1 where qp: "quote_prices e w a b = (pr, w1)" by (cases "quote_prices e w a b")
  have pr: "pr = (default_price a, default_price b)"
    using quote_prices_down[OF down Cons.prems] qp by simp
  have d1: "dexService w1 = dexService w" using quote_prices_frame(1)[of e w a b] qp by simp
  have c1: "priceCache (priceService w1) = priceCache (priceService w)"
    using quote_prices_cache_down[OF down, of w a b] qp by simp
  have ih: "fst (quotes_in_order e w1 ks a b amt)
     = map (\<lambda>k. quote_from_prices k (default_price a) (default_price b) (poolCache (dexService w)) amt) ks"
    using Cons.IH[of w1] Cons.prems c1 d1 by simp
  show ?case
    using ih by (cases "quotes_in_order e w1 ks a b amt") (simp add: getDexQuote_def qp pr d1)
qed

lemma env_pools_quotes:
  "fst (getAllDexQuotes env_pools (cold_world 1000000) APT USDC (parseFloat ''100''))
    = [Some \<lparr>q_dex = PANCAKE, dexName = ''PancakeSwap'', outputAmount = ''672.520742'',
            q_priceImpact = ''0.07'', q_fee = 0.3, q_dexUrl = ''https://pancakeswap.finance/aptos/swap'',
            gasEstimate = 0.0002\<rparr>,
       None, None,
       Some \<lparr>q_dex = THALA, dexName = ''Thala'', outputAmount = ''672.520742'',
            q_priceImpact = ''0.07'', q_fee = 0.3, q_dexUrl = ''https://app.thala.fi/swap'',
            gasEstimate = 0.00023\<rparr>,
       Some \<lparr>q_dex = PANORA, dexName = ''Panora'', outputAmount = ''673.195286'',
            q_priceImpact = ''0.07'', q_fee = 0.2, q_dexUrl = ''https://app.panora.exchange'',
            gasEstimate = 0.0002\<rparr>]"
proof -
  let ?w = "fetchPoolData env_pools (cold_world 1000000)"
  have down: "\<And>t i. coingecko env_pools t i = None" by (simp add: env_pools_def)
  have c: "priceCache (priceService ?w) (toLowerCase (symbol APT)) = None"
          "priceCache (priceService ?w) (toLowerCase (symbol USDC)) = None"
    by (simp_all add: fetchPoolData_frame cold_world_def)
  have pc: "poolCache (dexService ?w)
      = [''PancakeSwap'' \<mapsto> \<lparr>tvl = None\<rparr>, ''Thala'' \<mapsto> \<lparr>tvl = None\<rparr>, ''Panora'' \<mapsto> \<lparr>tvl = None\<rparr>]"
    by (simp add: fetchPoolData_def cold_world_def env_pools_def dex_keys_def Let_def)
  have amt: "parseFloat ''100'' = Fin 100" by (simp add: parse_eval)
  show ?thesis
    unfolding getAllDexQuotes_def quotes_in_order_down[OF down c] pc amt
    by (simp add: dex_keys_def quote_from_prices_def default_price_def Let_def
        liquidityFactor_def slippageFactor_def Math_min_def fixed_eval)
qed


text \<open>
  The example of the specification: of the present outputs 5, 12 and 3, with one DEX
  absent, the quote with output 12 is the route and 5, 3 follow as alternatives.
\<close>

lemma fanout_example_5_12_3:
  "route_from_quotes APT USDC ''1''
     [Some (example_quote PANCAKE ''5.000000''), Some (example_quote LIQUIDSWAP ''12.000000''),
      None, Some (example_quote THALA ''3.000000'')]
   = Inr \<lparr>fromToken = ''APT'', toToken = ''USDC'', fromAmount = ''1'',
          expectedOutput = ''12.000000'', priceImpact = Fin 0.07, estimatedGas = Fin 0.00025,
          dex = ''Liquidswap'', protocol = ''Liquidswap'',
          alternativeRoutes =
            [\<lparr>alt_protocol = ''PancakeSwap'', alt_expectedOutput = ''5.000000'',
              alt_priceImpact = ''0.07'', alt_estimatedGas = Fin 0.0002\<rparr>,
             \<lparr>alt_protocol = ''Thala'', alt_expectedOutput = ''3.000000'',
              alt_priceImpact = ''0.07'', alt_estimatedGas = Fin 0.00023\<rparr>],
          swapPayload = None, tokenIn_info = None, tokenOut_info = None,
          amount_field = None, path = [], dexUrl = None\<rparr>"
  by (simp add: route_from_quotes_def List.map_filter_simps sort_by_def by_output_desc_def
      example_quote_def js_greater_def parse_eval alternative_of_def gas_or_default_def)

theorem fanout_selection_witness:
  "\<exists>best others r w1.
      getFallbackSwapRoute env_pools (cold_world 1000000) APT USDC ''100'' = (Inr r, w1)
      \<and> sorted_wrt (\<lambda>a b. output_value b \<le> output_value a) (best # others)
      \<and> expectedOutput r = outputAmount best \<and> dex r = dexName best
      \<and> alternativeRoutes r = map alternative_of others
      \<and> dex r = ''Panora'' \<and> expectedOutput r = ''673.195286''
      \<and> map alt_protocol (alternativeRoutes r) = [''PancakeSwap'', ''Thala'']"
proof -
  let ?w = "cold_world 1000000"
  obtain qs w1 where f: "getAllDexQuotes env_pools ?w APT USDC (parseFloat ''100'') = (qs, w1)"
    by (cases "getAllDexQuotes env_pools ?w APT USDC (parseFloat ''100'')")
  have qs: "qs = [Some (example_quote PANCAKE ''672.520742''), None, None,
                  Some (example_quote THALA ''672.520742''), Some (example_quote PANORA ''673.195286'')]"
    using env_pools_quotes f by (simp add: example_quote_def)
  have valid: "List.map_filter (\<lambda>q. q) qs
      = [example_quote PANCAKE ''672.520742'', example_quote THALA ''672.520742'',
         example_quote PANORA ''673.195286'']"
    by (simp add: qs List.map_filter_simps)
  have numeric: "\<forall>q \<in> set (List.map_filter (\<lambda>q. q) qs). \<exists>v. parseFloat (outputAmount q) = Fin v"
  proof -
    have "\<exists>v. parseFloat ''672.520742'' = Fin v"
      by (rule exI[of _ "672.520742"]) (simp add: parse_eval)
    moreover have "\<exists>v. parseFloat ''673.195286'' = Fin v"
      by (rule exI[of _ "673.195286"]) (simp add: parse_eval)
    ultimately show ?thesis unfolding valid by (simp add: example_quote_def)
  qed
  have ne: "List.map_filter (\<lambda>q. q) qs \<noteq> []" by (simp add: valid)
  from fanout_selection[OF f numeric] ne obtain best others r where
    r: "getFallbackSwapRoute env_pools ?w APT USDC ''100'' = (Inr r, w1)"
    and s: "sorted_wrt (\<lambda>a b. output_value b \<le> output_value a) (best # others)"
    and p: "expectedOutput r = outputAmount best" "dex r = dexName best"
           "alternativeRoutes r = map alternative_of others"
    by blast
  have ev: "route_from_quotes APT USDC ''100'' qs
     = Inr \<lparr>fromToken = ''APT'', toToken = ''USDC'', fromAmount = ''100'',
          expectedOutput = ''673.195286'', priceImpact = Fin 0.07, estimatedGas = Fin 0.0002,
          dex = ''Panora'', protocol = ''Panora'',
          alternativeRoutes =
            [\<lparr>alt_protocol = ''PancakeSwap'', alt_expectedOutput = ''672.520742'',
              alt_priceImpact = ''0.07'', alt_estimatedGas = Fin 0.0002\<rparr>,
             \<lparr>alt_protocol = ''Thala'', alt_expectedOutput = ''672.520742'',
              alt_priceImpact = ''0.07'', alt_estimatedGas = Fin 0.00023\<rparr>],
          swapPayload = None, tokenIn_info = None, tokenOut_info = None,
          amount_field = None, path = [], dexUrl = None\<rparr>"
    unfolding qs
    by (simp add: route_from_quotes_def List.map_filter_simps sort_by_def by_output_desc_def
      example_quote_def js_greater_def parse_eval alternative_of_def gas_or_default_def)
  have c: "dex r = ''Panora'' \<and> expectedOutput r = ''673.195286''
      \<and> map alt_protocol (alternativeRoutes r) = [''PancakeSwap'', ''Thala'']"
    using r by (auto simp: getFallbackSwapRoute_def f ev)
  show ?thesis
    apply (rule exI[of _ best], rule exI[of _ others], rule exI[of _ r], rule exI[of _ w1])
    using r s p c by simp
qed

text \<open>
  The quoter does produce outputs that are not numbers: for the amount 0 every present
  quote of the fan-out has the output \<open>NaN\<close>.
\<close>

lemma fanout_zero_amount:
  "map (map_option outputAmount)
     (fst (getAllDexQuotes env_pools (cold_world 1000000) APT USDC (parseFloat ''0'')))
    = [Some ''NaN'', None, None, Some ''NaN'', Some ''NaN'']"
proof -
  let ?w = "fetchPoolData env_pools (cold_world 1000000)"
  have down: "\<And>t i. coingecko env_pools t i = None" by (simp add: env_pools_def)
  have c: "priceCache (priceService ?w) (toLowerCase (symbol APT)) = None"
          "priceCache (priceService ?w) (toLowerCase (symbol USDC)) = None"
    by (simp_all add: fetchPoolData_frame cold_world_def)
  have pc: "poolCache (dexService ?w)
      = [''PancakeSwap'' \<mapsto> \<lparr>tvl = None\<rparr>, ''Thala'' \<mapsto> \<lparr>tvl = None\<rparr>, ''Panora'' \<mapsto> \<lparr>tvl = None\<rparr>]"
    by (simp add: fetchPoolData_def cold_world_def env_pools_def dex_keys_def Let_def)
  have amt: "parseFloat ''0'' = Fin 0" by (simp add: parse_eval)
  show ?thesis
    unfolding getAllDexQuotes_def quotes_in_order_down[OF down c] pc amt
    by (simp add: dex_keys_def quote_from_prices_def default_price_def Let_def
        liquidityFactor_def slippageFactor_def Math_min_def)
qed

text \<open>
  The claim as stated, for all present quotes, fails: the comparator
  \<open>parseFloat(b.outputAmount) - parseFloat(a.outputAmount)\<close> is \<open>NaN\<close> on a pair with an
  output that is not a number, which the sort takes as "equal". Of the present outputs 3,
  NaN, 5, 1 and 12 the quote with output 3 becomes the route, and the alternatives follow
  as NaN, 12, 5, 1.
\<close>

theorem fanout_selection_nan_output:
  "route_from_quotes APT USDC ''1''
     [Some (example_quote PANCAKE ''3.000000''), Some (example_quote LIQUIDSWAP ''NaN''),
      Some (example_quote AUX ''5.000000''), Some (example_quote THALA ''1.000000''),
      Some (example_quote PANORA ''12.000000'')]
   = Inr \<lparr>fromToken = ''APT'', toToken = ''USDC'', fromAmount = ''1'',
          expectedOutput = ''3.000000'', priceImpact = Fin 0.07, estimatedGas = Fin 0.0002,
          dex = ''PancakeSwap'', protocol = ''PancakeSwap'',
          alternativeRoutes =
            [\<lparr>alt_protocol = ''Liquidswap'', alt_expectedOutput = ''NaN'',
              alt_priceImpact = ''0.07'', alt_estimatedGas = Fin 0.00025\<rparr>,
             \<lparr>alt_protocol = ''Panora'', alt_expectedOutput = ''12.000000'',
              alt_priceImpact = ''0.07'', alt_estimatedGas = Fin 0.0002\<rparr>,
             \<lparr>alt_protocol = ''AUX Exchange'', alt_expectedOutput = ''5.000000'',
              alt_priceImpact = ''0.07'', alt_estimatedGas = Fin 0.00022\<rparr>,
             \<lparr>alt_protocol = ''Thala'', alt_expectedOutput = ''1.000000'',
              alt_priceImpact = ''0.07'', alt_estimatedGas = Fin 0.00023\<rparr>],
          swapPayload = None, tokenIn_info = None, tokenOut_info = None,
          amount_field = None, path = [], dexUrl = None\<rparr>"
  by (simp add: route_from_quotes_def List.map_filter_simps sort_by_def by_output_desc_def
      example_quote_def js_greater_def parse_eval alternative_of_def gas_or_default_def)

subsection \<open>Reading back a formatted number\<close>

lemma is_digit_facts:
  assumes "is_digit c"
  shows "\<not> is_space c" "c \<noteq> CHR ''-''" "c \<noteq> CHR ''+''" "c \<noteq> CHR ''I''" "c \<noteq> CHR ''.''"
  using assms by (auto simp: is_digit_def is_space_def)

lemma is_digit_zero: "is_digit CHR ''0''"
  by (simp add: is_digit_def)

lemma padded_all_digits: "\<forall>c \<in> set (padded_digits n d). is_digit c"
  using digits_of_all_digits[of n] is_digit_zero by (auto simp: padded_digits_def)

lemma padded_length: "d + 1 \<le> length (padded_digits n d)"
  by (simp add: padded_digits_def)

lemma not_digit_dot: "\<not> is_digit CHR ''.''"
  by (simp add: is_digit_def)

lemma parseFloat_digit_first:
  assumes "is_digit c"
  shows "parseFloat (c # r) = parse_unsigned (c # r)"
  using is_digit_facts[OF assms] by (simp add: parseFloat_def)

lemma parseFloat_minus_digit:
  assumes "is_digit c"
  shows "parseFloat (CHR ''-'' # c # r) = js_sub (Fin 0) (parse_unsigned (c # r))"
  by (simp add: parseFloat_def is_space_def)

lemma scale10_nonneg: "0 \<le> v \<Longrightarrow> 0 \<le> scale10 v k"
  by (simp add: scale10_def)

text \<open>A string that starts with a digit reads as a non-negative number.\<close>

lemma parse_unsigned_digit_first:
  assumes "is_digit c"
  shows "\<exists>v. parse_unsigned (c # r) = Fin v \<and> 0 \<le> v"
proof -
  have a: "take 8 (c # r) \<noteq> ''Infinity''"
    using is_digit_facts(4)[OF assms] by auto
  have b: "takeWhile is_digit (c # r) \<noteq> []" using assms by simp
  show ?thesis
    using a b by (auto simp: parse_unsigned_def Let_def scale10_nonneg simp del: takeWhile.simps)
qed

lemma digits_val_zeros: "digits_val 0 (replicate j CHR ''0'' @ m) = digits_val 0 m"
proof -
  have "digits_val 0 (replicate j CHR ''0'') = 0"
    by (induction j) (simp_all add: digit_val_def)
  then show ?thesis by (simp add: digits_val_append)
qed

lemma parse_unsigned_plain:
  assumes ip: "ip \<noteq> []" "\<forall>c \<in> set ip. is_digit c" and fp: "\<forall>c \<in> set fp. is_digit c"
  shows "parse_unsigned (ip @ CHR ''.'' # fp) = Fin (real (digits_val 0 (ip @ fp)) / 10 ^ length fp)"
proof -
  obtain c r where cr: "ip = c # r" using ip(1) by (cases ip) auto
  have c: "is_digit c" using ip(2) cr by simp
  have a: "take 8 (ip @ CHR ''.'' # fp) \<noteq> ''Infinity''"
    using is_digit_facts(4)[OF c] cr by auto
  have t: "takeWhile is_digit (ip @ CHR ''.'' # fp) = ip"
    using ip(2) by (simp add: takeWhile_append2 not_digit_dot)
  have d: "dropWhile is_digit (ip @ CHR ''.'' # fp) = CHR ''.'' # fp"
    using ip(2) by (simp add: dropWhile_append2 not_digit_dot)
  have tf: "takeWhile is_digit fp = fp" using fp by (simp add: takeWhile_eq_all_conv)
  have df: "dropWhile is_digit fp = []" using fp by simp
  show ?thesis
    using a ip(1)
    by (simp add: parse_unsigned_def Let_def t d tf df scale10_def)
qed

lemma parse_unsigned_int:
  assumes ip: "ip \<noteq> []" "\<forall>c \<in> set ip. is_digit c"
  shows "parse_unsigned ip = Fin (real (digits_val 0 ip))"
proof -
  obtain c r where cr: "ip = c # r" using ip(1) by (cases ip) auto
  have c: "is_digit c" using ip(2) cr by simp
  have a: "take 8 ip \<noteq> ''Infinity''"
    using is_digit_facts(4)[OF c] cr by auto
  have t: "takeWhile is_digit ip = ip" using ip(2) by (simp add: takeWhile_eq_all_conv)
  have d: "dropWhile is_digit ip = []" using ip(2) by simp
  show ?thesis
    using a ip(1) by (simp add: parse_unsigned_def Let_def t d scale10_def)
qed

lemma padded_val: "digits_val 0 (padded_digits n d) = n"
  by (simp add: padded_digits_def digits_val_zeros digits_val_digits_of)

lemma parse_fixed_digits:
  "parse_unsigned (fixed_digits x d) = Fin (real (nat \<lfloor>x * 10 ^ d + 1 / 2\<rfloor>) / 10 ^ d)"
proof -
  define n where "n = nat \<lfloor>x * 10 ^ d + 1 / 2\<rfloor>"
  define m where "m = padded_digits n d"
  define k where "k = length m - d"
  have alld: "\<forall>c \<in> set m. is_digit c" unfolding m_def by (rule padded_all_digits)
  have len: "d + 1 \<le> length m" unfolding m_def by (rule padded_length)
  have val: "digits_val 0 m = n" unfolding m_def by (rule padded_val)
  have fd: "fixed_digits x d = (if d = 0 then m else take k m @ CHR ''.'' # drop k m)"
    by (simp add: fixed_digits_def Let_def n_def m_def k_def)
  show ?thesis
  proof (cases "d = 0")
    case True
    have ne: "m \<noteq> []" using len by auto
    have "parse_unsigned m = Fin (real (digits_val 0 m))"
      using ne alld by (rule parse_unsigned_int)
    then show ?thesis unfolding fd using True by (simp add: val n_def)
  next
    case False
    have ne: "take k m \<noteq> []" using len by (auto simp: k_def)
    have a1: "\<forall>c \<in> set (take k m). is_digit c" using alld by (meson in_set_takeD)
    have a2: "\<forall>c \<in> set (drop k m). is_digit c" using alld by (meson in_set_dropD)
    have l: "length (drop k m) = d" using len by (simp add: k_def)
    have "parse_unsigned (take k m @ CHR ''.'' # drop k m)
        = Fin (real (digits_val 0 (take k m @ drop k m)) / 10 ^ length (drop k m))"
      using ne a1 a2 by (rule parse_unsigned_plain)
    then show ?thesis
      unfolding fd l using False by (simp add: val n_def)
  qed
qed

lemma fixed_digits_first:
  "\<exists>c r. fixed_digits x d = c # r \<and> is_digit c"
proof -
  define m where "m = padded_digits (nat \<lfloor>x * 10 ^ d + 1 / 2\<rfloor>) d"
  define k where "k = length m - d"
  have alld: "\<forall>c \<in> set m. is_digit c" unfolding m_def by (rule padded_all_digits)
  have len: "d + 1 \<le> length m" unfolding m_def by (rule padded_length)
  have fd: "fixed_digits x d = (if d = 0 then m else take k m @ CHR ''.'' # drop k m)"
    by (simp add: fixed_digits_def Let_def m_def k_def)
  obtain c r where cr: "m = c # r" using len by (cases m) auto
  then have c: "is_digit c" using alld by simp
  have "0 < k" using len by (simp add: k_def)
  then obtain j where j: "k = Suc j" by (cases k) auto
  show ?thesis
    unfolding fd using c by (cases "d = 0") (simp_all add: cr j)
qed

lemma parseFloat_toFixed:
  assumes "\<bar>x\<bar> < 10 ^ 21"
  shows "parseFloat (toFixed (Fin x) d)
     = Fin (if x < 0 then - (real (nat \<lfloor>- x * 10 ^ d + 1 / 2\<rfloor>) / 10 ^ d)
            else real (nat \<lfloor>x * 10 ^ d + 1 / 2\<rfloor>) / 10 ^ d)"
proof (cases "x < 0")
  case True
  obtain c r where cr: "fixed_digits (- x) d = c # r" "is_digit c"
    using fixed_digits_first[of "- x" d] by auto
  have "parseFloat (CHR ''-'' # fixed_digits (- x) d) = js_sub (Fin 0) (parse_unsigned (fixed_digits (- x) d))"
    unfolding cr(1) using cr(2) by (rule parseFloat_minus_digit)
  then show ?thesis
    using True assms by (simp add: parse_fixed_digits)
next
  case False
  obtain c r where cr: "fixed_digits x d = c # r" "is_digit c"
    using fixed_digits_first[of x d] by auto
  have "parseFloat (fixed_digits x d) = parse_unsigned (fixed_digits x d)"
    unfolding cr(1) using cr(2) by (rule parseFloat_digit_first)
  then show ?thesis
    using False assms by (simp add: parse_fixed_digits)
qed

lemma hd_digits_of: "is_digit (hd (digits_of n))"
  using digits_of_all_digits[of n] digits_of_nonempty[of n] hd_in_set by blast

lemma exp_string_first: "\<exists>c r. exp_string x = c # r \<and> is_digit c"
  by (simp add: exp_string_def Let_def hd_digits_of)

lemma toFixed_nonneg_parses:
  assumes "0 \<le> x"
  shows "\<exists>v. parseFloat (toFixed (Fin x) d) = Fin v \<and> 0 \<le> v"
proof -
  have "\<exists>c r. toFixed (Fin x) d = c # r \<and> is_digit c"
    using assms exp_string_first[of x] fixed_digits_first[of x d] by auto
  then obtain c r where cr: "toFixed (Fin x) d = c # r" "is_digit c" by blast
  show ?thesis
    unfolding cr(1) parseFloat_digit_first[OF cr(2)]
    by (rule parse_unsigned_digit_first[OF cr(2)])
qed

lemma toFixed_bounded_parses:
  assumes "0 \<le> x" "x \<le> 10"
  shows "\<exists>v. parseFloat (toFixed (Fin x) 2) = Fin v \<and> 0 \<le> v \<and> v \<le> 10"
proof -
  have small: "\<bar>x\<bar> < 10 ^ 21" using assms by simp
  have "x * 100 + 1 / 2 \<le> 1000 + 1 / 2" using assms by simp
  then have "\<lfloor>x * 100 + 1 / 2\<rfloor> \<le> \<lfloor>(1000::real) + 1 / 2\<rfloor>" by (rule floor_mono)
  then have "\<lfloor>x * 100 + 1 / 2\<rfloor> \<le> 1000" by simp
  then have b: "real (nat \<lfloor>x * 10 ^ 2 + 1 / 2\<rfloor>) / 10 ^ 2 \<le> 10" by simp linarith
  have eq: "parseFloat (toFixed (Fin x) 2) = Fin (real (nat \<lfloor>x * 10 ^ 2 + 1 / 2\<rfloor>) / 10 ^ 2)"
    using parseFloat_toFixed[OF small, of 2] assms by (simp del: toFixed.simps)
  show ?thesis
  proof (intro exI conjI)
    show "parseFloat (toFixed (Fin x) 2) = Fin (real (nat \<lfloor>x * 10 ^ 2 + 1 / 2\<rfloor>) / 10 ^ 2)"
      by (rule eq)
    show "0 \<le> real (nat \<lfloor>x * 10 ^ 2 + 1 / 2\<rfloor>) / 10 ^ 2" by simp
    show "real (nat \<lfloor>x * 10 ^ 2 + 1 / 2\<rfloor>) / 10 ^ 2 \<le> 10" by (rule b)
  qed
qed

subsection \<open>The synthetic quote\<close>

lemma Math_min_Fin: "Math_min (Fin a) (Fin b) = Fin (min a b)"
  by (simp add: Math_min_def min_def)

lemma Math_max_Fin: "Math_max (Fin a) (Fin b) = Fin (max a b)"
  by (simp add: Math_max_def max_def)

lemma slippageFactor_value:
  "slippageFactor (Fin a) p t = Fin (min 0.1 (a * p / (if t \<noteq> 0 then t else 1000000)))"
  by (simp add: slippageFactor_def Let_def Math_min_Fin)

lemma liquidityFactor_range:
  assumes "0 \<le> t"
  shows "\<exists>l. liquidityFactor t = Fin l \<and> 0.9 \<le> l \<and> l \<le> 1"
proof (cases "t = 0")
  case True
  then show ?thesis by (simp add: liquidityFactor_def)
next
  case False
  have "(0::real) < log 10 1000000" by (subst zero_less_log_cancel_iff) simp_all
  then have nz: "log 10 1000000 \<noteq> (0::real)" by (metis less_irrefl)
  have d: "js_div (Math_log10 (Fin t)) (Math_log10 (Fin 1000000)) = Fin (log 10 t / log 10 1000000)"
    using False assms nz by simp
  define z where "z = log 10 t / log 10 (1000000::real)"
  have l: "liquidityFactor t = Fin (min 1 (max 0.9 z))"
    using False unfolding liquidityFactor_def d z_def by (simp add: Math_min_Fin Math_max_Fin)
  have "0.9 \<le> min 1 (max 0.9 z)" "min 1 (max 0.9 z) \<le> 1" by linarith+
  with l show ?thesis by blast
qed


lemma dex_fee_range: "0 \<le> dex_fee (APTOS_DEXES k) \<and> dex_fee (APTOS_DEXES k) < 1"
  by (cases k) simp_all

lemma quote_from_prices_bounds:
  assumes q: "quote_from_prices k pin pout pools (Fin a) = Some q"
    and pos: "0 < pin" "0 < pout" "0 < a"
    and tv: "\<forall>pd v. pools (dex_name (APTOS_DEXES k)) = Some pd \<longrightarrow> tvl pd = Some v \<longrightarrow> 0 \<le> v"
  shows "\<exists>ov iv. parseFloat (outputAmount q) = Fin ov \<and> 0 \<le> ov
            \<and> parseFloat (q_priceImpact q) = Fin iv \<and> 0 \<le> iv \<and> iv \<le> 10"
proof -
  obtain pd where pd: "pools (dex_name (APTOS_DEXES k)) = Some pd"
    using q pos by (auto simp: quote_from_prices_def Let_def split: option.splits)
  define t where "t = (case tvl pd of Some t \<Rightarrow> t | None \<Rightarrow> 0)"
  have t0: "0 \<le> t" using tv pd by (auto simp: t_def split: option.splits)
  define dv where "dv = (if t \<noteq> 0 then t else 1000000)"
  have dv: "0 < dv" using t0 by (auto simp: dv_def)
  define sf where "sf = min 0.1 (a * pin / dv)"
  have sfv: "slippageFactor (Fin a) pin t = Fin sf"
    by (simp add: slippageFactor_value sf_def dv_def)
  have "0 \<le> a * pin / dv" using pos dv by simp
  then have sf: "0 \<le> sf" "sf \<le> 0.1" unfolding sf_def by linarith+
  obtain l where l: "liquidityFactor t = Fin l" "0.9 \<le> l" "l \<le> 1"
    using liquidityFactor_range[OF t0] by blast
  define fee where "fee = dex_fee (APTOS_DEXES k)"
  have fee: "0 \<le> fee" "fee < 1" using dex_fee_range[of k] by (simp_all add: fee_def)
  define out where "out = a * pin / pout * l * (1 - sf) * (a * (1 - fee) / a)"
  have out0: "0 \<le> out"
    unfolding out_def using pos l sf fee by (intro mult_nonneg_nonneg divide_nonneg_nonneg) simp_all
  have oa: "outputAmount q = toFixed (Fin out) 6"
    using q pos by (auto simp: quote_from_prices_def Let_def pd t_def[symmetric] l sfv out_def fee_def
        simp del: toFixed.simps)
  have pi: "q_priceImpact q = toFixed (Fin (sf * 100)) 2"
    using q pos by (auto simp: quote_from_prices_def Let_def pd t_def[symmetric] sfv
        simp del: toFixed.simps)
  obtain ov where ov: "parseFloat (toFixed (Fin out) 6) = Fin ov" "0 \<le> ov"
    using toFixed_nonneg_parses[OF out0] by blast
  have "0 \<le> sf * 100" "sf * 100 \<le> 10" using sf by simp_all
  then obtain iv where iv: "parseFloat (toFixed (Fin (sf * 100)) 2) = Fin iv" "0 \<le> iv" "iv \<le> 10"
    using toFixed_bounded_parses by blast
  show ?thesis unfolding oa pi using ov iv by blast
qed


lemma fetch_request_result:
  assumes "fst (fetch_request e tok w) = Inr p"
  shows "\<exists>data. coingecko e (clock w) (gecko tok) = Some data \<and> data (gecko tok) = Some p"
  using assms
  by (auto simp: fetch_request_def COINGECKO_IDS_symbol Let_def split: option.splits if_splits)

lemma lookup_sane:
  assumes e: "env_sane e" and w: "world_sane w"
  shows "world_sane (snd (getTokenPriceWithCache e w tok))"
    and "fst (getTokenPriceWithCache e w tok) = Inr p \<Longrightarrow> 0 < p"
proof -
  let ?k = "toLowerCase (symbol tok)"
  have both: "world_sane (snd (getTokenPriceWithCache e w tok))
      \<and> (fst (getTokenPriceWithCache e w tok) = Inr p \<longrightarrow> 0 < p)"
  proof (cases "cache_fresh w tok")
    case True
    from lookup_fresh[OF True, of e] obtain c where
      c: "priceCache (priceService w) ?k = Some c" "getTokenPriceWithCache e w tok = (Inr (price c), w)"
      by blast
    have "0 < price c" using w c(1) by (auto simp: world_sane_def)
    then show ?thesis using w c(2) by auto
  next
    case False
    obtain r w1 where fr: "fetch_request e tok (at_request w) = (r, w1)"
      by (cases "fetch_request e tok (at_request w)")
    have w1: "priceCache (priceService w1) = priceCache (priceService w)"
             "dexService w1 = dexService w"
      using fetch_request_frame(1,4)[of e tok "at_request w"] fr by (simp_all add: at_request_frame)
    have eq: "getTokenPriceWithCache e w tok
        = store_price (clock w) tok (priceCache (priceService w) ?k) (r, w1)"
      by (simp add: lookup_stale[OF False] fr)
    show ?thesis
    proof (cases r)
      case (Inr p')
      have "0 < p'"
        using fetch_request_result[of e tok "at_request w" p'] fr Inr e
        by (auto simp: env_sane_def)
      then show ?thesis
        using w by (auto simp: eq Inr store_price_def world_sane_def w1)
    next
      case (Inl err)
      show ?thesis
        using w by (auto simp: eq Inl store_price_def world_sane_def w1 split: option.splits)
    qed
  qed
  from both show "world_sane (snd (getTokenPriceWithCache e w tok))" by simp
  from both show "fst (getTokenPriceWithCache e w tok) = Inr p \<Longrightarrow> 0 < p" by simp
qed

lemma fallback_prices_pos:
  "0 < x \<Longrightarrow> 0 < y \<Longrightarrow> 0 < fst (fallback_prices a b (x, y)) \<and> 0 < snd (fallback_prices a b (x, y))"
  by (simp add: fallback_prices_def Let_def)

lemma quote_prices_sane:
  assumes e: "env_sane e" and w: "world_sane w"
  shows "world_sane (snd (quote_prices e w a b))
    \<and> 0 < fst (fst (quote_prices e w a b)) \<and> 0 < snd (fst (quote_prices e w a b))"
proof -
  obtain r1 w1 where g1: "getTokenPriceWithCache e w a = (r1, w1)" by (cases "getTokenPriceWithCache e w a")
  obtain r2 w2 where g2: "getTokenPriceWithCache e w1 b = (r2, w2)" by (cases "getTokenPriceWithCache e w1 b")
  have s1: "world_sane w1" using lookup_sane(1)[OF e w, of a] g1 by simp
  have s2: "world_sane w2" using lookup_sane(1)[OF e s1, of b] g2 by simp
  have p1: "\<And>p. r1 = Inr p \<Longrightarrow> 0 < p" using lookup_sane(2)[OF e w, of a] g1 by simp
  have p2: "\<And>p. r2 = Inr p \<Longrightarrow> 0 < p" using lookup_sane(2)[OF e s1, of b] g2 by simp
  show ?thesis
    using s1 s2 p1 p2 fallback_prices_pos[of 1 1 a b]
    by (cases r1; cases r2) (auto simp: quote_prices_def g1 g2 fallback_prices_pos)
qed

lemma getDexQuote_sane:
  assumes e: "env_sane e" and w: "world_sane w" and a: "0 < a"
    and q: "getDexQuote e w k tokenIn tokenOut (Fin a) = (Some q, w')"
  shows "world_sane w'"
    and "\<exists>ov iv. parseFloat (outputAmount q) = Fin ov \<and> 0 \<le> ov
            \<and> parseFloat (q_priceImpact q) = Fin iv \<and> 0 \<le> iv \<and> iv \<le> 10"
proof -
  obtain pr w1 where qp: "quote_prices e w tokenIn tokenOut = (pr, w1)"
    by (cases "quote_prices e w tokenIn tokenOut")
  have s: "world_sane w1" "0 < fst pr" "0 < snd pr"
    using quote_prices_sane[OF e w, of tokenIn tokenOut] qp by simp_all
  have w': "w' = w1" and qq: "quote_from_prices k (fst pr) (snd pr) (poolCache (dexService w1)) (Fin a) = Some q"
    using q by (auto simp: getDexQuote_def qp)
  show "world_sane w'" using s(1) w' by simp
  have tv: "\<forall>pd v. poolCache (dexService w1) (dex_name (APTOS_DEXES k)) = Some pd \<longrightarrow> tvl pd = Some v \<longrightarrow> 0 \<le> v"
    using s(1) by (auto simp: world_sane_def)
  show "\<exists>ov iv. parseFloat (outputAmount q) = Fin ov \<and> 0 \<le> ov
            \<and> parseFloat (q_priceImpact q) = Fin iv \<and> 0 \<le> iv \<and> iv \<le> 10"
    using quote_from_prices_bounds[OF qq s(2) s(3) a tv] .
qed

lemma getDexQuote_down:
  assumes down: "\<And>t i. coingecko e t i = None"
    and ca: "priceCache (priceService w) (toLowerCase (symbol a)) = None"
    and cb: "priceCache (priceService w) (toLowerCase (symbol b)) = None"
  shows "fst (getDexQuote e w k a b amt)
     = quote_from_prices k (default_price a) (default_price b) (poolCache (dexService w)) amt"
proof -
  obtain pr w1 where qp: "quote_prices e w a b = (pr, w1)" by (cases "quote_prices e w a b")
  have pr: "pr = (default_price a, default_price b)"
    using quote_prices_down[OF down ca cb] qp by simp
  have d1: "dexService w1 = dexService w" using quote_prices_frame(1)[of e w a b] qp by simp
  show ?thesis by (simp add: getDexQuote_def qp pr d1)
qed

lemma pool_world_facts:
  "priceCache (priceService pool_world) k = None"
  "poolCache (dexService pool_world) ''PancakeSwap'' = Some \<lparr>tvl = None\<rparr>"
  "poolCache (dexService pool_world) ''Liquidswap'' = Some \<lparr>tvl = Some 500000\<rparr>"
  "world_sane pool_world"
  by (simp_all add: pool_world_def cold_world_def world_sane_def)

lemma env_down_facts:
  "coingecko env_down t i = None" "env_sane env_down"
  by (simp_all add: env_down_def env_sane_def)

lemma pancake_quote_100:
  "fst (getDexQuote env_down pool_world PANCAKE USDC APT (Fin 100))
    = Some \<lparr>q_dex = PANCAKE, dexName = ''PancakeSwap'', outputAmount = ''14.768893'',
            q_priceImpact = ''0.01'', q_fee = 0.3, q_dexUrl = ''https://pancakeswap.finance/aptos/swap'',
            gasEstimate = 0.0002\<rparr>"
  unfolding getDexQuote_down[of env_down pool_world USDC APT, OF env_down_facts(1) pool_world_facts(1) pool_world_facts(1)]
  by (simp add: quote_from_prices_def pool_world_facts default_price_def Let_def
      liquidityFactor_def slippageFactor_def Math_min_def fixed_eval)

text \<open>
  The price impact of a quote is the slippage factor times 100, and the slippage factor
  is a minimum with 0.1: whatever the amount, it is not above 0.1.
\<close>

lemma toFixed_neg_parses:
  assumes "x < 0"
  shows "\<exists>v. parseFloat (toFixed (Fin x) d) = Fin v \<and> v \<le> 0"
proof -
  have "\<exists>c r. toFixed (Fin x) d = CHR ''-'' # c # r \<and> is_digit c"
    using assms exp_string_first[of "- x"] fixed_digits_first[of "- x" d] by auto
  then obtain c r where cr: "toFixed (Fin x) d = CHR ''-'' # c # r" "is_digit c" by blast
  obtain v where v: "parse_unsigned (c # r) = Fin v" "0 \<le> v"
    using parse_unsigned_digit_first[OF cr(2)] by blast
  show ?thesis
    unfolding cr(1) parseFloat_minus_digit[OF cr(2)] using v by simp
qed

lemma toFixed_le_10_parses:
  assumes "x \<le> 10"
  shows "\<exists>v. parseFloat (toFixed (Fin x) 2) = Fin v \<and> v \<le> 10"
proof (cases "x < 0")
  case True
  from toFixed_neg_parses[OF True, of 2] obtain v where
    "parseFloat (toFixed (Fin x) 2) = Fin v" "v \<le> 0" by blast
  then show ?thesis by (intro exI[of _ v]) simp
next
  case False
  then have "0 \<le> x" by simp
  from toFixed_bounded_parses[OF this assms] show ?thesis by blast
qed

lemma Math_min_cases:
  "Math_min (Fin c) v = NaN \<or> Math_min (Fin c) v = NegInf
   \<or> (\<exists>s. Math_min (Fin c) v = Fin s \<and> s \<le> c)"
  by (cases v) (auto simp: Math_min_def)

lemma slippageFactor_cases:
  "slippageFactor amount p t = NaN \<or> slippageFactor amount p t = NegInf
   \<or> (\<exists>s. slippageFactor amount p t = Fin s \<and> s \<le> 0.1)"
  unfolding slippageFactor_def Let_def by (rule Math_min_cases)

lemma priceImpact_not_above:
  "\<not> js_greater (parseFloat (toFixed (js_mul (slippageFactor amount p t) (Fin 100)) 2)) (Fin 10)"
proof -
  consider "slippageFactor amount p t = NaN" | "slippageFactor amount p t = NegInf"
    | s where "slippageFactor amount p t = Fin s" "s \<le> 0.1"
    using slippageFactor_cases[of amount p t] by blast
  then show ?thesis
  proof cases
    case 1
    then show ?thesis by (simp add: parse_eval js_greater_def)
  next
    case 2
    then show ?thesis by (simp add: parse_eval js_greater_def)
  next
    case 3
    have "s * 100 \<le> 10" using 3(2) by simp
    from toFixed_le_10_parses[OF this] obtain v where
      v: "parseFloat (toFixed (Fin (s * 100)) 2) = Fin v" "v \<le> 10" by blast
    show ?thesis unfolding 3(1) using v by (simp add: js_greater_def del: toFixed.simps)
  qed
qed

lemma priceImpact_finite:
  "\<exists>iv. parseFloat (toFixed (js_mul (slippageFactor (Fin a) p t) (Fin 100)) 2) = Fin iv \<and> iv \<le> 10"
proof -
  have "min 0.1 (a * p / (if t \<noteq> 0 then t else 1000000)) * 100 \<le> 10" by simp
  from toFixed_le_10_parses[OF this] show ?thesis
    unfolding slippageFactor_value by (simp del: toFixed.simps)
qed

lemma quote_priceImpact:
  assumes "quote_from_prices k pin pout pools amount = Some q"
  shows "\<exists>t. q_priceImpact q = toFixed (js_mul (slippageFactor amount pin t) (Fin 100)) 2"
  using assms
  by (auto simp: quote_from_prices_def Let_def simp del: toFixed.simps split: option.splits if_splits)

text \<open>
  Claim C4, as the code has it. The price impact of a quote returned by \<open>getDexQuote\<close>
  never reads as a number above 10, whatever the amount, the prices and the pool data; for
  a finite amount it reads as a number, which is at most 10. When moreover the amount is
  positive, the prices delivered upstream or held in the cache are positive and no pool
  TVL is negative, the output and the price impact both read back as non-negative numbers.
\<close>

theorem quote_bounds:
  assumes "getDexQuote e w k tokenIn tokenOut amount = (Some q, w')"
  shows "\<not> js_greater (parseFloat (q_priceImpact q)) (Fin 10)
     \<and> (\<forall>a. amount = Fin a \<longrightarrow> (\<exists>iv. parseFloat (q_priceImpact q) = Fin iv \<and> iv \<le> 10))
     \<and> (\<forall>a. amount = Fin a \<and> 0 < a \<and> env_sane e \<and> world_sane w \<longrightarrow>
           (\<exists>ov iv. parseFloat (outputAmount q) = Fin ov \<and> 0 \<le> ov
              \<and> parseFloat (q_priceImpact q) = Fin iv \<and> 0 \<le> iv \<and> iv \<le> 10))"
proof -
  obtain pr w1 where qp: "quote_prices e w tokenIn tokenOut = (pr, w1)"
    by (cases "quote_prices e w tokenIn tokenOut")
  have qq: "quote_from_prices k (fst pr) (snd pr) (poolCache (dexService w1)) amount = Some q"
    using assms by (auto simp: getDexQuote_def qp)
  obtain t where t: "q_priceImpact q = toFixed (js_mul (slippageFactor amount (fst pr) t) (Fin 100)) 2"
    using quote_priceImpact[OF qq] by blast
  have a: "\<not> js_greater (parseFloat (q_priceImpact q)) (Fin 10)"
    unfolding t by (rule priceImpact_not_above)
  have b: "\<exists>iv. parseFloat (q_priceImpact q) = Fin iv \<and> iv \<le> 10" if "amount = Fin a" for a
    unfolding t that by (rule priceImpact_finite)
  have c: "\<exists>ov iv. parseFloat (outputAmount q) = Fin ov \<and> 0 \<le> ov
              \<and> parseFloat (q_priceImpact q) = Fin iv \<and> 0 \<le> iv \<and> iv \<le> 10"
    if "amount = Fin a" "0 < a" "env_sane e" "world_sane w" for a
    using getDexQuote_sane(2)[OF that(3) that(4) that(2) assms[unfolded that(1)]] .
  show ?thesis using a b c by blast
qed

theorem quote_bounds_witness:
  "\<exists>q w'. getDexQuote env_down pool_world PANCAKE USDC APT (Fin 100) = (Some q, w')
     \<and> outputAmount q = ''14.768893'' \<and> q_priceImpact q = ''0.01''
     \<and> \<not> js_greater (parseFloat (q_priceImpact q)) (Fin 10)
     \<and> (\<exists>ov iv. parseFloat (outputAmount q) = Fin ov \<and> 0 \<le> ov
            \<and> parseFloat (q_priceImpact q) = Fin iv \<and> 0 \<le> iv \<and> iv \<le> 10)"
proof -
  obtain qo w' where g: "getDexQuote env_down pool_world PANCAKE USDC APT (Fin 100) = (qo, w')"
    by (cases "getDexQuote env_down pool_world PANCAKE USDC APT (Fin 100)")
  then obtain q where q: "qo = Some q" "outputAmount q = ''14.768893''" "q_priceImpact q = ''0.01''"
    using pancake_quote_100 by auto
  have pos: "(0::real) < 100" by simp
  from quote_bounds[OF g[unfolded q(1)]] env_down_facts(2) pool_world_facts(4) pos
  show ?thesis using g q by blast
qed

text \<open>
  The claim as stated fails in its second part for a negative amount, which nothing in the
  services rejects: the quote for \<open>-100\<close> USDC has the price impact \<open>-0.01\<close> and a
  negative output.
\<close>

theorem quote_negative_amount:
  "map_option q_priceImpact (fst (getDexQuote env_down pool_world PANCAKE USDC APT (Fin (- 100))))
     = Some ''-0.01''
   \<and> map_option outputAmount (fst (getDexQuote env_down pool_world PANCAKE USDC APT (Fin (- 100))))
     = Some ''-14.771847''
   \<and> parseFloat ''-0.01'' = Fin (- 0.01) \<and> parseFloat ''-14.771847'' = Fin (- 14.771847)"
  unfolding getDexQuote_down[of env_down pool_world USDC APT, OF env_down_facts(1) pool_world_facts(1) pool_world_facts(1)]
  by (simp add: quote_from_prices_def pool_world_facts default_price_def Let_def
      liquidityFactor_def slippageFactor_def Math_min_def fixed_eval parse_eval)

text \<open>
  For the amount 0 the fee ratio \<open>afterFeeAmount / amount\<close> is \<open>0 / 0\<close> and the output
  is not a number.
\<close>

lemma quote_zero_amount:
  "map_option outputAmount (fst (getDexQuote env_down pool_world PANCAKE USDC APT (Fin 0)))
     = Some ''NaN''"
  unfolding getDexQuote_down[of env_down pool_world USDC APT, OF env_down_facts(1) pool_world_facts(1) pool_world_facts(1)]
  by (simp add: quote_from_prices_def pool_world_facts default_price_def Let_def
      liquidityFactor_def slippageFactor_def Math_min_def)





subsection \<open>The route selector\<close>

lemma pool_fold_source:
  assumes "fold (\<lambda>r m. case snd r of Some (Some d) \<Rightarrow> m(fst r \<mapsto> d) | _ \<Rightarrow> m) results m0 n = Some pd"
  shows "m0 n = Some pd \<or> (\<exists>r \<in> set results. snd r = Some (Some pd))"
  using assms
proof (induction results arbitrary: m0)
  case Nil
  then show ?case by simp
next
  case (Cons r rs)
  from Cons.IH[OF Cons.prems[simplified]]
  show ?case
    by (auto split: option.splits if_splits)
qed

lemma fetchPoolData_sane:
  assumes e: "env_sane e" and w: "world_sane w"
  shows "world_sane (fetchPoolData e w)"
proof -
  have pc: "priceCache (priceService (fetchPoolData e w)) = priceCache (priceService w)"
    by (simp add: fetchPoolData_frame)
  have pool: "0 \<le> v" if "poolCache (dexService (fetchPoolData e w)) n = Some pd" "tvl pd = Some v" for n pd v
  proof (cases "poolCache (dexService w) \<noteq> Map.empty \<and> clock w - poolCacheTimestamp (dexService w) < POOL_CACHE_DURATION")
    case True
    then have "fetchPoolData e w = w" by (simp add: fetchPoolData_def Let_def)
    then show ?thesis using that w by (auto simp: world_sane_def)
  next
    case False
    let ?results = "map (\<lambda>k. (dex_name (APTOS_DEXES k), liquidity e (clock w) (liquiditySource (APTOS_DEXES k)))) dex_keys"
    have "poolCache (dexService (fetchPoolData e w))
       = fold (\<lambda>r m. case snd r of Some (Some d) \<Rightarrow> m(fst r \<mapsto> d) | _ \<Rightarrow> m) ?results Map.empty"
      using False by (auto simp: fetchPoolData_def Let_def)
    with that(1) pool_fold_source[of ?results Map.empty n pd]
    have "\<exists>r \<in> set ?results. snd r = Some (Some pd)" by simp
    then have "\<exists>s. liquidity e (clock w) s = Some (Some pd)" by auto
    then show ?thesis using e that(2) by (auto simp: env_sane_def)
  qed
  show ?thesis
    using w pool unfolding world_sane_def pc by blast
qed

lemma quotes_in_order_sane:
  assumes e: "env_sane e" and a: "0 < a" and w: "world_sane w"
  shows "world_sane (snd (quotes_in_order e w ks tokenIn tokenOut (Fin a)))
    \<and> (\<forall>q. Some q \<in> set (fst (quotes_in_order e w ks tokenIn tokenOut (Fin a))) \<longrightarrow> quote_ok q)"
  using w
proof (induction ks arbitrary: w)
  case Nil
  then show ?case by simp
next
  case (Cons k ks)
  obtain q0 w1 where g: "getDexQuote e w k tokenIn tokenOut (Fin a) = (q0, w1)"
    by (cases "getDexQuote e w k tokenIn tokenOut (Fin a)")
  have s1: "world_sane w1"
    using quote_prices_sane[OF e Cons.prems, of tokenIn tokenOut]
          getDexQuote_frame(4)[of e w k tokenIn tokenOut "Fin a"] g by simp
  have ok: "quote_ok q" if "q0 = Some q" for q
    using getDexQuote_sane(2)[OF e Cons.prems a g[unfolded that]] by (auto simp: quote_ok_def)
  obtain qs w2 where r: "quotes_in_order e w1 ks tokenIn tokenOut (Fin a) = (qs, w2)"
    by (cases "quotes_in_order e w1 ks tokenIn tokenOut (Fin a)")
  from Cons.IH[OF s1] r have ih: "world_sane w2" "\<forall>q. Some q \<in> set qs \<longrightarrow> quote_ok q" by simp_all
  show ?case
    using ih ok by (auto simp: g r)
qed

lemma map_filter_id_set: "q \<in> set (List.map_filter (\<lambda>q. q) qs) \<longleftrightarrow> Some q \<in> set qs"
  by (induction qs) (auto simp: List.map_filter_simps split: option.splits)

lemma route_from_quotes_member:
  assumes "route_from_quotes tokenIn tokenOut amount qs = Inr r"
  shows "\<exists>q. Some q \<in> set qs \<and> expectedOutput r = outputAmount q"
proof -
  let ?sorted = "sort_by by_output_desc (List.map_filter (\<lambda>q. q) qs)"
  from assms obtain best others where bo: "?sorted = best # others" "expectedOutput r = outputAmount best"
    by (auto simp: route_from_quotes_def Let_def split: list.splits)
  have "set ?sorted = set (List.map_filter (\<lambda>q. q) qs)"
    by (metis sort_by_mset set_mset_mset)
  moreover have "best \<in> set ?sorted" unfolding bo(1) by simp
  ultimately have "best \<in> set (List.map_filter (\<lambda>q. q) qs)" by blast
  then have "Some best \<in> set qs" by (simp add: map_filter_id_set)
  then show ?thesis using bo(2) by blast
qed

lemma fallback_route_prices_sane:
  assumes e: "env_sane e" and w: "world_sane w"
  shows "0 < fst (fst (fallback_route_prices e w a b)) \<and> 0 < snd (fst (fallback_route_prices e w a b))"
proof -
  obtain r1 w1 where g1: "getTokenPriceWithCache e w a = (r1, w1)" by (cases "getTokenPriceWithCache e w a")
  obtain r2 w2 where g2: "getTokenPriceWithCache e w1 b = (r2, w2)" by (cases "getTokenPriceWithCache e w1 b")
  have s1: "world_sane w1" using lookup_sane(1)[OF e w, of a] g1 by simp
  have p1: "\<And>p. r1 = Inr p \<Longrightarrow> 0 < p" using lookup_sane(2)[OF e w, of a] g1 by simp
  have p2: "\<And>p. r2 = Inr p \<Longrightarrow> 0 < p" using lookup_sane(2)[OF e s1, of b] g2 by simp
  show ?thesis
    using p1 p2 fallback_prices_pos[of 1 1 a b]
    by (cases r1; cases r2) (auto simp: fallback_route_prices_def g1 g2)
qed

lemma generateFallbackSwapRoute_returns:
  "\<exists>r w'. generateFallbackSwapRoute e w a b amount = (Inr r, w')
     \<and> expectedOutput r = toFixed (js_div (js_mul (parseFloat amount)
            (Fin (fst (fst (fallback_route_prices e w a b)))))
            (Fin (snd (fst (fallback_route_prices e w a b))))) 6"
  by (cases "fallback_route_prices e w a b")
     (simp add: generateFallbackSwapRoute_def Let_def del: toFixed.simps)

lemma getFallbackSwapRoute_returns:
  "\<exists>r w'. getFallbackSwapRoute e w a b amount = (Inr r, w')"
proof -
  obtain qs w1 where g: "getAllDexQuotes e w a b (parseFloat amount) = (qs, w1)"
    by (cases "getAllDexQuotes e w a b (parseFloat amount)")
  show ?thesis
    using generateFallbackSwapRoute_returns[of e w1 a b amount]
    by (cases "route_from_quotes a b amount qs") (auto simp: getFallbackSwapRoute_def g)
qed

lemma getBestSwapRoute_returns:
  "\<exists>r w'. getBestSwapRoute e w a b amount = (Inr r, w')"
proof -
  obtain r0 w1 where g: "aggregator_route e w a b amount = (r0, w1)"
    by (cases "aggregator_route e w a b amount")
  show ?thesis
    using getFallbackSwapRoute_returns[of e w1 a b amount]
    by (cases r0) (auto simp: getBestSwapRoute_def g split: option.splits)
qed


text \<open>
  Claim C1, as the code has it. For every pair of tokens, every amount string, every state
  and every behaviour of the upstream services, \<open>getBestSwapRoute\<close> returns a route and
  never an error: what a tier raises is caught, and the last tier has nothing that can
  raise. When moreover the aggregator tier yields no route, the amount reads as a positive
  number, the prices delivered or cached are positive and no pool TVL is negative, the
  route's expected output reads back as a non-negative number.
\<close>

theorem best_route_always_returns:
  "\<exists>r w'. getBestSwapRoute e w tokenIn tokenOut amount = (Inr r, w')
     \<and> (env_sane e \<and> world_sane w
          \<and> (\<forall>r0. fst (aggregator_route e w tokenIn tokenOut amount) \<noteq> Inr (Some r0))
          \<and> (\<exists>a. parseFloat amount = Fin a \<and> 0 < a)
          \<longrightarrow> (\<exists>v. parseFloat (expectedOutput r) = Fin v \<and> 0 \<le> v))"
proof -
  obtain r w' where best: "getBestSwapRoute e w tokenIn tokenOut amount = (Inr r, w')"
    using getBestSwapRoute_returns by blast
  have "\<exists>v. parseFloat (expectedOutput r) = Fin v \<and> 0 \<le> v"
    if e: "env_sane e" and w: "world_sane w"
      and agg: "\<forall>r0. fst (aggregator_route e w tokenIn tokenOut amount) \<noteq> Inr (Some r0)"
      and amt: "parseFloat amount = Fin a" "0 < a" for a
  proof -
    obtain r0 w1 where g: "aggregator_route e w tokenIn tokenOut amount = (r0, w1)"
      by (cases "aggregator_route e w tokenIn tokenOut amount")
    have fb: "getFallbackSwapRoute e w1 tokenIn tokenOut amount = (Inr r, w')"
      using best agg g by (cases r0) (auto simp: getBestSwapRoute_def split: option.splits)
    have "priceService w1 = priceService w" "dexService w1 = dexService w"
      using aggregator_route_frame(1,2)[of e w tokenIn tokenOut amount] g by simp_all
    then have s1: "world_sane w1" using w by (simp add: world_sane_def)
    obtain qs w2 where q: "getAllDexQuotes e w1 tokenIn tokenOut (Fin a) = (qs, w2)"
      by (cases "getAllDexQuotes e w1 tokenIn tokenOut (Fin a)")
    have inv: "world_sane w2" "\<forall>q. Some q \<in> set qs \<longrightarrow> quote_ok q"
      using quotes_in_order_sane[OF e amt(2) fetchPoolData_sane[OF e s1], of dex_keys tokenIn tokenOut] q
      by (simp_all add: getAllDexQuotes_def)
    show ?thesis
    proof (cases "route_from_quotes tokenIn tokenOut amount qs")
      case (Inr r')
      then have "r' = r" using fb by (simp add: getFallbackSwapRoute_def amt(1) q)
      with route_from_quotes_member[OF Inr] inv(2) show ?thesis
        by (auto simp: quote_ok_def)
    next
      case (Inl err)
      then have gen: "generateFallbackSwapRoute e w2 tokenIn tokenOut amount = (Inr r, w')"
        using fb by (simp add: getFallbackSwapRoute_def amt(1) q)
      define pin where "pin = fst (fst (fallback_route_prices e w2 tokenIn tokenOut))"
      define pout where "pout = snd (fst (fallback_route_prices e w2 tokenIn tokenOut))"
      have pos: "0 < pin" "0 < pout"
        using fallback_route_prices_sane[OF e inv(1), of tokenIn tokenOut]
        by (simp_all add: pin_def pout_def)
      have "expectedOutput r = toFixed (js_div (js_mul (parseFloat amount) (Fin pin)) (Fin pout)) 6"
        using generateFallbackSwapRoute_returns[of e w2 tokenIn tokenOut amount] gen
        by (auto simp: pin_def pout_def simp del: toFixed.simps)
      then have eo: "expectedOutput r = toFixed (Fin (a * pin / pout)) 6"
        using pos by (simp add: amt(1) del: toFixed.simps)
      have "0 \<le> a * pin / pout" using pos amt(2) by simp
      from toFixed_nonneg_parses[OF this] show ?thesis unfolding eo .
    qed
  qed
  then show ?thesis using best by blast
qed

lemma best_route_all_down:
  assumes agg: "panoraClient (swapService w) = None \<or> (\<forall>t i f g x. panora_quote e t i f g x = None)"
    and pools: "\<forall>t s. liquidity e t s = None" "poolCache (dexService w) = Map.empty"
    and prices: "\<forall>t i. coingecko e t i = None"
       "priceCache (priceService w) (toLowerCase (symbol a)) = None"
       "priceCache (priceService w) (toLowerCase (symbol b)) = None"
  shows "map_sum id expectedOutput (fst (getBestSwapRoute e w a b amount))
     = Inr (toFixed (js_div (js_mul (parseFloat amount) (Fin (default_price a))) (Fin (default_price b))) 6)"
proof -
  obtain r0 w1 where ag: "aggregator_route e w a b amount = (r0, w1)"
    by (cases "aggregator_route e w a b amount")
  have r0: "\<And>r. r0 \<noteq> Inr (Some r)"
    using aggregator_route_fails[OF agg, where a=a and b=b and amt=amount] ag by simp
  have w1: "priceService w1 = priceService w" "dexService w1 = dexService w"
    using aggregator_route_frame[of e w a b amount] ag by simp_all
  have best: "getBestSwapRoute e w a b amount = getFallbackSwapRoute e w1 a b amount"
    using r0 by (cases r0) (auto simp: getBestSwapRoute_def ag split: option.splits)
  obtain qs w2 where q: "getAllDexQuotes e w1 a b (parseFloat amount) = (qs, w2)"
    by (cases "getAllDexQuotes e w1 a b (parseFloat amount)")
  have qs: "qs = replicate 5 None"
    using getAllDexQuotes_down[of e w1 a b "parseFloat amount"] pools w1 q by simp
  have w2: "priceCache (priceService w2) = priceCache (priceService w)"
    using getAllDexQuotes_cache_down[of e w1 a b "parseFloat amount"] prices(1) q w1 by simp
  have fb: "getFallbackSwapRoute e w1 a b amount = generateFallbackSwapRoute e w2 a b amount"
    by (simp add: getFallbackSwapRoute_def q qs route_from_no_quotes)
  have pr: "fst (fallback_route_prices e w2 a b) = (default_price a, default_price b)"
    using fallback_route_prices_down[of e w2 a b] prices w2 by (simp add: default_price_def)
  obtain r w' where gen: "generateFallbackSwapRoute e w2 a b amount = (Inr r, w')"
    "expectedOutput r = toFixed (js_div (js_mul (parseFloat amount)
            (Fin (fst (fst (fallback_route_prices e w2 a b)))))
            (Fin (snd (fst (fallback_route_prices e w2 a b))))) 6"
    using generateFallbackSwapRoute_returns[of e w2 a b amount] by blast
  show ?thesis
    unfolding best fb gen(1) using gen(2) by (simp add: pr del: toFixed.simps)
qed

text \<open>
  The claim as stated fails for an amount string that is not a non-negative number: with
  every upstream service failing, the route for \<open>-5\<close> APT to USDC has the expected
  output \<open>-33.750000\<close>.
\<close>

theorem best_route_negative_amount:
  "map_sum id expectedOutput (fst (getBestSwapRoute env_down (cold_world 1000000) APT USDC ''-5''))
     = Inr ''-33.750000''
   \<and> parseFloat ''-33.750000'' = Fin (- 33.75)"
proof -
  have "map_sum id expectedOutput (fst (getBestSwapRoute env_down (cold_world 1000000) APT USDC ''-5''))
     = Inr (toFixed (js_div (js_mul (parseFloat ''-5'') (Fin (default_price APT))) (Fin (default_price USDC))) 6)"
    by (rule best_route_all_down) (simp_all add: env_down_def cold_world_def)
  then show ?thesis
    by (simp add: default_price_def parse_eval fixed_eval)
qed

theorem best_route_always_returns_witness:
  "\<exists>r w'. getBestSwapRoute env_down (cold_world 1000000) APT USDC ''10'' = (Inr r, w')
     \<and> (\<exists>v. parseFloat (expectedOutput r) = Fin v \<and> 0 \<le> v)"
proof -
  have ws: "world_sane (cold_world 1000000)" by (simp add: world_sane_def cold_world_def)
  have agg: "\<forall>r0. fst (aggregator_route env_down (cold_world 1000000) APT USDC ''10'') \<noteq> Inr (Some r0)"
    using aggregator_route_fails[of "cold_world 1000000" env_down]
    by (simp add: env_down_def)
  have amt: "\<exists>a. parseFloat ''10'' = Fin a \<and> 0 < a"
    by (rule exI[of _ 10]) (simp add: parse_eval)
  from best_route_always_returns[of env_down "cold_world 1000000" APT USDC "''10''"]
  show ?thesis using env_down_facts(2) ws agg amt by blast
qed

end
